theory Spec2Isabelle
  imports Complex_Main "HOL-Library.Word" "HOL-Library.Multiset" "HOL-Library.Monad_Syntax"
begin

section \<open>JavaScript numbers\<close>

text \<open>
  A JavaScript number is an IEEE 754 binary64 value: \<open>NaN\<close>, an infinity, or a finite
  value \<open>Fin x\<close>, where \<open>x\<close> is the rational the double denotes (negative zero is not
  told apart from zero). \<open>to_double\<close> rounds a rational to the nearest double, ties to
  the even significand: it is the result of every arithmetic operation on the exact
  result, and of reading a decimal numeral (\<open>parseFloat\<close>, \<open>JSON.parse\<close>).
\<close>

datatype number = NaN | PosInfinity | NegInfinity | Fin rat

function bit_length :: "int \<Rightarrow> int" where
  "bit_length n = (if n \<le> 0 then 0 else 1 + bit_length (n div 2))"
  by pat_completeness auto
termination
  by (relation "measure nat") auto

definition pow2 :: "int \<Rightarrow> rat" where
  "pow2 e = (if 0 \<le> e then 2 ^ nat e else 1 / 2 ^ nat (- e))"

text \<open>For \<open>x > 0\<close>, the exponent \<open>e\<close> with \<open>2^e \<le> x < 2^(e+1)\<close>.\<close>

definition binade :: "rat \<Rightarrow> int" where
  "binade x =
     (let d = bit_length (fst (quotient_of x)) - bit_length (snd (quotient_of x))
      in if pow2 d \<le> x then d else d - 1)"

definition round_half_even :: "rat \<Rightarrow> int" where
  "round_half_even x =
     (let f = \<lfloor>x\<rfloor>; r = x - of_int f
      in if r < 1 / 2 then f else if 1 / 2 < r then f + 1 else if even f then f else f + 1)"

text \<open>
  Significands have 53 bits; below \<open>2^(-1022)\<close> the spacing stays \<open>2^(-1074)\<close>
  (subnormal numbers); a result of \<open>2^1024\<close> or more is an infinity.
\<close>

definition to_double :: "rat \<Rightarrow> number" where
  "to_double x =
     (if x = 0 then Fin 0
      else let e = max (binade \<bar>x\<bar>) (- 1022);
               q = pow2 (e - 52);
               m = round_half_even (\<bar>x\<bar> / q)
           in if 1023 < e \<or> (e = 1023 \<and> 9007199254740992 \<le> m)
              then (if x < 0 then NegInfinity else PosInfinity)
              else Fin (sgn x * (of_int m * q)))"

definition negative :: "number \<Rightarrow> bool" where
  "negative x = (case x of NegInfinity \<Rightarrow> True | Fin a \<Rightarrow> a < 0 | _ \<Rightarrow> False)"

text \<open>\<open>x * y\<close>\<close>

fun fmul :: "number \<Rightarrow> number \<Rightarrow> number" where
  "fmul (Fin a) (Fin b) = to_double (a * b)"
| "fmul NaN y = NaN"
| "fmul x NaN = NaN"
| "fmul x y =
     (if x = Fin 0 \<or> y = Fin 0 then NaN
      else if negative x = negative y then PosInfinity else NegInfinity)"

text \<open>\<open>x / y\<close> (a zero divisor counts as positive zero)\<close>

fun fdiv :: "number \<Rightarrow> number \<Rightarrow> number" where
  "fdiv (Fin a) (Fin b) =
     (if b = 0 then (if a = 0 then NaN else if 0 < a then PosInfinity else NegInfinity)
      else to_double (a / b))"
| "fdiv NaN y = NaN"
| "fdiv x NaN = NaN"
| "fdiv (Fin a) y = Fin 0"
| "fdiv x (Fin b) = (if negative x = (b < 0) then PosInfinity else NegInfinity)"
| "fdiv x y = NaN"

text \<open>\<open>x <= y\<close> and \<open>x < y\<close>: false when an operand is \<open>NaN\<close>.\<close>

fun num_le :: "number \<Rightarrow> number \<Rightarrow> bool" where
  "num_le NaN y = False"
| "num_le x NaN = False"
| "num_le (Fin a) (Fin b) = (a \<le> b)"
| "num_le NegInfinity y = True"
| "num_le x PosInfinity = True"
| "num_le x y = False"

definition num_lt :: "number \<Rightarrow> number \<Rightarrow> bool" where
  "num_lt x y = (num_le x y \<and> x \<noteq> y)"

text \<open>\<open>!x\<close> on a number\<close>

definition falsy_number :: "number \<Rightarrow> bool" where
  "falsy_number x = (x = NaN \<or> x = Fin 0)"

text \<open>
  \<open>parseFloat(x.toFixed(2))\<close>. \<open>toFixed\<close> prints \<open>NaN\<close>, the infinities and the
  numbers from \<open>10^21\<close> on as \<open>String(x)\<close> does, and \<open>parseFloat\<close> reads them back.
  Otherwise it takes the sign off, picks the integer \<open>n\<close> for which \<open>n / 100\<close> is nearest
  to the exact value of the double (the larger \<open>n\<close> of two), and prints \<open>n\<close> with two
  decimals; \<open>parseFloat\<close> rounds that decimal to a double.
\<close>

definition toFixed2 :: "number \<Rightarrow> number" where
  "toFixed2 x =
     (case x of
        Fin v \<Rightarrow> if 10 ^ 21 \<le> \<bar>v\<bar> then Fin v
                 else to_double (sgn v * (of_int \<lfloor>\<bar>v\<bar> * 100 + 1 / 2\<rfloor> / 100))
      | _ \<Rightarrow> x)"

text \<open>The double a count (\<open>parseInt\<close> of \<open>COUNT(*)\<close>) or a decimal numeral denotes.\<close>

definition number_of_nat :: "nat \<Rightarrow> number" where
  "number_of_nat n = to_double (of_nat n)"

section \<open>JavaScript strings\<close>

text \<open>
  A JavaScript string is a sequence of UTF-16 code units. The strings the handlers
  transform (\<open>trim\<close>, \<open>toUpperCase\<close>, template literals) or write to a column of bounded
  length are of this type; \<open>utf16\<close> gives the string of a literal of the source. Strings
  that the handlers only compare and copy (names, e-mail addresses, roles, rule types) and
  the raw fields handed to \<open>parseFloat\<close>, \<open>parseInt\<close> and \<open>new Date\<close> are character lists.
\<close>

type_synonym code_unit = "16 word"
type_synonym js_string = "code_unit list"

definition utf16 :: "string \<Rightarrow> js_string" where
  "utf16 s = map (\<lambda>c. of_nat (of_char c)) s"

text \<open>
  \<open>String.prototype.trim\<close> removes leading and trailing white space and line
  terminators: TAB, VT, FF, ZWNBSP (U+FEFF), the space separators of Unicode (U+0020,
  U+00A0, U+1680, U+2000 to U+200A, U+202F, U+205F, U+3000), and LF, CR, U+2028, U+2029.
\<close>

definition js_whitespace :: "code_unit \<Rightarrow> bool" where
  "js_whitespace c =
     (c \<in> set [0x0009, 0x000A, 0x000B, 0x000C, 0x000D, 0x0020, 0x00A0, 0x1680,
                0x2028, 0x2029, 0x202F, 0x205F, 0x3000, 0xFEFF]
      \<or> (0x2000 \<le> c \<and> c \<le> 0x200A))"

definition trim :: "js_string \<Rightarrow> js_string" where
  "trim s = rev (dropWhile js_whitespace (rev (dropWhile js_whitespace s)))"

text \<open>
  A string bound to a query parameter is sent as UTF-8, which replaces a surrogate code
  unit outside a pair by U+FFFD. PostgreSQL (with a UTF-8 database) refuses a text value
  that contains the character U+0000; \<open>None\<close> is that error. \<open>text_column s\<close> is the
  value a \<open>TEXT\<close> column stores for \<open>s\<close> and a later \<open>SELECT\<close> or \<open>RETURNING\<close> reads.
\<close>

definition high_surrogate :: "code_unit \<Rightarrow> bool" where
  "high_surrogate c = (0xD800 \<le> c \<and> c \<le> 0xDBFF)"

definition low_surrogate :: "code_unit \<Rightarrow> bool" where
  "low_surrogate c = (0xDC00 \<le> c \<and> c \<le> 0xDFFF)"

text \<open>The code points of a string: a surrogate pair, or one code unit.\<close>

fun code_points :: "js_string \<Rightarrow> js_string list" where
  "code_points [] = []"
| "code_points [c] = [[c]]"
| "code_points (c # d # rest) =
     (if high_surrogate c \<and> low_surrogate d then [c, d] # code_points rest
      else [c] # code_points (d # rest))"

definition utf8_round_trip :: "js_string \<Rightarrow> js_string" where
  "utf8_round_trip s =
     concat (map (\<lambda>cp. if length cp = 1 \<and> (high_surrogate (hd cp) \<or> low_surrogate (hd cp))
                        then [0xFFFD] else cp)
                 (code_points s))"

definition text_column :: "js_string \<Rightarrow> js_string option" where
  "text_column s = (if 0 \<in> set s then None else Some (utf8_round_trip s))"

text \<open>
  \<open>VARCHAR(n)\<close> counts characters. It raises on a longer string unless the excess is
  spaces, which it cuts off.
\<close>

definition varchar :: "nat \<Rightarrow> js_string \<Rightarrow> js_string option" where
  "varchar n s =
     (case text_column s of
        None \<Rightarrow> None
      | Some t \<Rightarrow>
          if length (code_points t) \<le> n then Some t
          else if list_all (\<lambda>cp. cp = [0x0020]) (drop n (code_points t))
          then Some (concat (take n (code_points t)))
          else None)"

text \<open>\<open>x || null\<close> on a string or \<open>undefined\<close>: the empty string is falsy.\<close>

definition or_null :: "js_string option \<Rightarrow> js_string option" where
  "or_null x = (if x = Some [] then None else x)"

text \<open>
  The value bound to a nullable text parameter and the value the column then holds: the
  outer \<open>None\<close> is the error of \<open>text_column\<close>, the inner one is \<open>NULL\<close>.
\<close>

definition nullable :: "('a \<Rightarrow> 'a option) \<Rightarrow> 'a option \<Rightarrow> 'a option option" where
  "nullable column x = (case x of None \<Rightarrow> Some None | Some s \<Rightarrow> map_option Some (column s))"

section \<open>Persistent data (backend/database/schema.sql)\<close>

text \<open>
  Every table of the schema is a list of rows, each row a record with the columns the
  controllers read or write. Identifiers are UUIDs in the schema; here they are natural
  numbers, a nullable column is an \<open>option\<close>, \<open>INTEGER\<close> is \<open>int\<close> and the
  \<open>CHECK\<close>-constrained status columns are datatypes. A timestamp is a natural number
  (the value of \<open>CURRENT_TIMESTAMP\<close> is passed to every handler as \<open>now\<close>).
  A \<open>DECIMAL\<close> amount is a rational.

  A constraint of the schema is part of the model where a statement of a modelled handler
  can violate it: the column types and the foreign keys at \<open>INSERT INTO expenses\<close>, the
  type \<open>TEXT\<close> at \<open>UPDATE approvals SET comments = $1\<close>, the \<open>CHECK\<close> on \<open>rule_type\<close>
  at \<open>INSERT INTO approval_rules\<close>, and \<open>UNIQUE(company_id, role_name, sequence)\<close> and
  the range of \<open>INTEGER\<close> at the statements of \<open>updateApproverSequence\<close>.
\<close>

type_synonym uuid = nat
type_synonym timestamp = nat

datatype approval_status = Pending | Approved | Rejected

datatype expense_status = EPending | EApproved | ERejected | EDraft

record approval =
  a_id :: uuid
  a_expense_id :: uuid
  a_approver_id :: uuid
  a_sequence :: int
  a_status :: approval_status
  a_comments :: "js_string option"
  a_approved_at :: "timestamp option"
  a_created_at :: timestamp

record expense =
  e_id :: uuid
  e_user_id :: uuid
  e_company_id :: uuid
  e_amount :: rat
  e_original_amount :: rat
  e_original_currency :: js_string
  e_category :: js_string
  e_description :: "js_string option"
  e_date :: timestamp
  e_status :: expense_status
  e_receipt_url :: "js_string option"
  e_created_at :: timestamp
  e_updated_at :: timestamp

record approver =
  ap_id :: uuid
  ap_company_id :: uuid
  ap_user_id :: uuid
  ap_role_name :: string
  ap_sequence :: int
  ap_is_active :: bool

text \<open>
  \<open>rule_config\<close> is a JSON object. The keys the controllers read are fields here, an
  absent key is \<open>None\<close>, and the values of the numeric keys are JSON numbers.
\<close>

record rule_config =
  cfg_percentage :: "number option"
  cfg_total_approvers :: "number option"
  cfg_required_percentage :: "number option"
  cfg_approver_id :: "uuid option"
  cfg_special_approver_id :: "uuid option"

record approval_rule =
  r_id :: uuid
  r_company_id :: uuid
  r_rule_type :: string
  r_rule_config :: rule_config
  r_is_active :: bool

record user =
  u_id :: uuid
  u_company_id :: uuid
  u_name :: string
  u_email :: string
  u_role :: string
  u_manager_id :: "uuid option"

record company =
  c_id :: uuid
  c_currency :: js_string

text \<open>
  \<open>next_id\<close> stands for \<open>uuid_generate_v4()\<close>: every \<open>INSERT\<close> takes it as the new
  row's id and increments it.
\<close>

record db =
  approvals :: "approval list"
  expenses :: "expense list"
  approvers :: "approver list"
  approval_rules :: "approval_rule list"
  users :: "user list"
  companies :: "company list"
  next_id :: uuid

section \<open>Responses\<close>

text \<open>
  Each early \<open>return res.status(...).json({error: ...})\<close> of the controllers is one
  constructor; where the \<open>details\<close> string interpolates a value, the constructor
  carries it. \<open>http_status\<close> is the status code the handler sends with it.
\<close>

datatype conversion_error =
    CurrencyNotSupported
  | ServiceTimeout
  | ConversionFailed
  | ServiceUnavailable

datatype http_error =
    ApprovalNotFound
  | AccessDenied
  | InvalidApprovalStatus approval_status
  | InvalidExpenseStatus expense_status
  | SequentialApprovalViolation int
  | CommentsRequired
  | MissingRequiredFields
  | InvalidAmount
  | InvalidDateFormat
  | CompanyNotFound
  | CurrencyConversionFailed conversion_error
  | InvalidSequence
  | ApproverNotFound
  | InvalidRuleType
  | InvalidPercentageRule
  | InvalidPercentageValue
  | InvalidTotalApprovers
  | InvalidSpecificApproverRule
  | InvalidHybridRule
  | SpecialApproverNotFound
  | InternalError

fun http_status :: "http_error \<Rightarrow> nat" where
  "http_status ApprovalNotFound = 404"
| "http_status AccessDenied = 403"
| "http_status (InvalidApprovalStatus s) = 400"
| "http_status (InvalidExpenseStatus s) = 400"
| "http_status (SequentialApprovalViolation k) = 400"
| "http_status CommentsRequired = 400"
| "http_status MissingRequiredFields = 400"
| "http_status InvalidAmount = 400"
| "http_status InvalidDateFormat = 400"
| "http_status CompanyNotFound = 404"
| "http_status (CurrencyConversionFailed e) = 400"
| "http_status InvalidSequence = 400"
| "http_status ApproverNotFound = 404"
| "http_status InvalidRuleType = 400"
| "http_status InvalidPercentageRule = 400"
| "http_status InvalidPercentageValue = 400"
| "http_status InvalidTotalApprovers = 400"
| "http_status InvalidSpecificApproverRule = 400"
| "http_status InvalidHybridRule = 400"
| "http_status SpecialApproverNotFound = 404"
| "http_status InternalError = 500"

section \<open>approvalController: approveExpense and rejectExpense\<close>

text \<open>
  \<open>SELECT a.*, e.status, e.company_id FROM approvals a JOIN expenses e
  ON a.expense_id = e.id WHERE a.id = $1\<close>, then \<open>rows[0]\<close>.
\<close>

definition approvalResult :: "db \<Rightarrow> uuid \<Rightarrow> (approval \<times> expense) list" where
  "approvalResult d i =
     concat (map (\<lambda>a. map (\<lambda>e. (a, e)) (filter (\<lambda>e. e_id e = a_expense_id a) (expenses d)))
                 (filter (\<lambda>a. a_id a = i) (approvals d)))"

text \<open>\<open>SELECT ... WHERE expense_id = $1 AND sequence < $2 ORDER BY sequence ASC\<close>\<close>

definition previousApprovals :: "db \<Rightarrow> uuid \<Rightarrow> int \<Rightarrow> approval list" where
  "previousApprovals d eid sq =
     sort_key a_sequence
       (filter (\<lambda>s. a_expense_id s = eid \<and> a_sequence s < sq) (approvals d))"

definition unapprovedPrevious :: "db \<Rightarrow> uuid \<Rightarrow> int \<Rightarrow> approval list" where
  "unapprovedPrevious d eid sq =
     filter (\<lambda>s. a_status s \<noteq> Approved) (previousApprovals d eid sq)"

text \<open>\<open>SELECT ... WHERE expense_id = $1 AND sequence > $2 ORDER BY sequence ASC\<close>\<close>

definition remainingApprovals :: "db \<Rightarrow> uuid \<Rightarrow> int \<Rightarrow> approval list" where
  "remainingApprovals d eid sq =
     sort_key a_sequence
       (filter (\<lambda>s. a_expense_id s = eid \<and> a_sequence s > sq) (approvals d))"

definition allApprovals :: "db \<Rightarrow> uuid \<Rightarrow> approval list" where
  "allApprovals d eid = filter (\<lambda>s. a_expense_id s = eid) (approvals d)"

text \<open>
  \<open>UPDATE approvals SET status = .., comments = .., approved_at = CURRENT_TIMESTAMP
  WHERE id = $2\<close>
\<close>

definition update_approval ::
  "timestamp \<Rightarrow> uuid \<Rightarrow> approval_status \<Rightarrow> js_string option \<Rightarrow> db \<Rightarrow> db" where
  "update_approval now i st c d =
     d\<lparr>approvals :=
          map (\<lambda>s. if a_id s = i
                    then s\<lparr>a_status := st, a_comments := c, a_approved_at := Some now\<rparr>
                    else s)
              (approvals d)\<rparr>"

text \<open>\<open>UPDATE expenses SET status = $1, updated_at = CURRENT_TIMESTAMP WHERE id = $2\<close>\<close>

definition update_expense_status :: "timestamp \<Rightarrow> uuid \<Rightarrow> expense_status \<Rightarrow> db \<Rightarrow> db" where
  "update_expense_status now eid st d =
     d\<lparr>expenses :=
          map (\<lambda>x. if e_id x = eid then x\<lparr>e_status := st, e_updated_at := now\<rparr> else x)
              (expenses d)\<rparr>"

text \<open>
  \<open>SELECT rule_type, rule_config FROM approval_rules
  WHERE company_id = $1 AND is_active = true\<close>
\<close>

definition rulesResult :: "db \<Rightarrow> uuid \<Rightarrow> approval_rule list" where
  "rulesResult d cid = filter (\<lambda>r. r_company_id r = cid \<and> r_is_active r) (approval_rules d)"

text \<open>\<open>config.required_percentage || 100\<close>: an absent key and the number 0 are falsy.\<close>

definition requiredPercentage :: "rule_config \<Rightarrow> number" where
  "requiredPercentage cfg =
     (case cfg_required_percentage cfg of
        None \<Rightarrow> Fin 100
      | Some p \<Rightarrow> if falsy_number p then Fin 100 else p)"

text \<open>
  \<open>SELECT COUNT(*) as total, COUNT(CASE WHEN status = 'approved' THEN 1 END) as approved
  FROM approvals WHERE expense_id = $1\<close> and
  \<open>(parseInt(stats.approved) / parseInt(stats.total)) * 100\<close>, a quotient and a product
  of doubles.
\<close>

definition approvedPercentage :: "db \<Rightarrow> uuid \<Rightarrow> number" where
  "approvedPercentage d eid =
     fmul (fdiv (number_of_nat (length (filter (\<lambda>s. a_status s = Approved) (allApprovals d eid))))
                (number_of_nat (length (allApprovals d eid))))
          (Fin 100)"

text \<open>
  The loop \<open>for (const rule of rulesResult.rows)\<close>: its state is the pair
  \<open>(isFullyApproved, expenseStatus)\<close>, and its only branch is
  \<open>rule.rule_type === 'percentage'\<close> with the test
  \<open>approvedPercentage >= requiredPercentage\<close>.
\<close>

fun rules_loop ::
  "db \<Rightarrow> uuid \<Rightarrow> approval_rule list \<Rightarrow> bool \<times> expense_status \<Rightarrow> bool \<times> expense_status" where
  "rules_loop d eid [] st = st"
| "rules_loop d eid (rule # rest) st =
     rules_loop d eid rest
       (if r_rule_type rule = ''percentage''
        then (if num_le (requiredPercentage (r_rule_config rule)) (approvedPercentage d eid)
              then (True, EApproved) else st)
        else st)"

record approve_body =
  ab_approval :: approval
  ab_approver :: user
  ab_expense_status :: expense_status
  ab_fully_approved :: bool
  ab_next_approver :: "(user \<times> int) option"

definition first_row :: "'a list \<Rightarrow> 'a option" where
  "first_row rows = (case rows of [] \<Rightarrow> None | r # _ \<Rightarrow> Some r)"

text \<open>
  The response of \<open>approveExpense\<close>, built after \<open>COMMIT\<close>. The approver's row is
  read with \<open>approverDetails.rows[0].name\<close>: a missing row makes the handler throw, and
  its \<open>catch\<close> answers 500. The next approver is the row of
  \<open>SELECT u.name, u.email, a.sequence FROM approvals a JOIN users u
  ON a.approver_id = u.id WHERE a.id = $1\<close> for the first remaining slot, when the
  expense is not fully approved.
\<close>

definition approve_response ::
  "uuid \<Rightarrow> approval option \<Rightarrow> expense option \<Rightarrow> bool \<Rightarrow> approval list \<Rightarrow> db
   \<Rightarrow> http_error + approve_body" where
  "approve_response userId updatedApproval updatedExpense isFullyApproved remaining d2 =
     (case updatedApproval of
        None \<Rightarrow> Inl InternalError
      | Some ua \<Rightarrow>
          (case updatedExpense of
             None \<Rightarrow> Inl InternalError
           | Some ue \<Rightarrow>
               (case filter (\<lambda>u. u_id u = userId) (users d2) of
                  [] \<Rightarrow> Inl InternalError
                | approverDetails # _ \<Rightarrow>
                    Inr \<lparr>ab_approval = ua, ab_approver = approverDetails,
                         ab_expense_status = e_status ue,
                         ab_fully_approved = isFullyApproved,
                         ab_next_approver =
                           (case remaining of
                              [] \<Rightarrow> None
                            | nxt # _ \<Rightarrow>
                                if isFullyApproved then None
                                else first_row
                                  (concat (map (\<lambda>s. map (\<lambda>u. (u, a_sequence s))
                                                  (filter (\<lambda>u. u_id u = a_approver_id s) (users d2)))
                                     (filter (\<lambda>s. a_id s = a_id nxt) (approvals d2)))))\<rparr>)))"

text \<open>
  \<open>approveExpense\<close>: \<open>now\<close> is the transaction's timestamp, \<open>userId\<close> is
  \<open>req.user.id\<close>, \<open>i\<close> is \<open>req.params.id\<close> and \<open>comments\<close> is \<open>req.body.comments\<close>, a
  string or \<open>undefined\<close>. A \<open>ROLLBACK\<close> returns the database it started from; the
  \<open>catch\<close> block answers a statement that raises with a \<open>ROLLBACK\<close> and status 500.
\<close>

definition approveExpense ::
  "timestamp \<Rightarrow> uuid \<Rightarrow> uuid \<Rightarrow> js_string option \<Rightarrow> db \<Rightarrow> (http_error + approve_body) \<times> db" where
  "approveExpense now userId i comments d =
     (case approvalResult d i of
        [] \<Rightarrow> (Inl ApprovalNotFound, d)
      | (a, e) # _ \<Rightarrow>
          if a_approver_id a \<noteq> userId then (Inl AccessDenied, d)
          else if a_status a \<noteq> Pending then (Inl (InvalidApprovalStatus (a_status a)), d)
          else if e_status e \<noteq> EPending then (Inl (InvalidExpenseStatus (e_status e)), d)
          else (case unapprovedPrevious d (e_id e) (a_sequence a) of
                  u # _ \<Rightarrow> (Inl (SequentialApprovalViolation (a_sequence u)), d)
                | [] \<Rightarrow>
                    (case nullable text_column (or_null comments) of
                       None \<Rightarrow> (Inl InternalError, d)
                     | Some stored \<Rightarrow>
                    let d1 = update_approval now i Approved stored d;
                        updatedApproval = first_row (filter (\<lambda>s. a_id s = i) (approvals d1));
                        remaining = remainingApprovals d1 (e_id e) (a_sequence a);
                        st0 = (if remaining = [] then (True, EApproved)
                               else if list_all (\<lambda>s. a_status s = Approved) (allApprovals d1 (e_id e))
                               then (True, EApproved)
                               else (False, EPending));
                        st1 = rules_loop d1 (e_id e) (rulesResult d1 (e_company_id e)) st0;
                        d2 = (if fst st1 then update_expense_status now (e_id e) (snd st1) d1 else d1);
                        updatedExpense = first_row (filter (\<lambda>x. e_id x = e_id e) (expenses d2))
                    in (approve_response userId updatedApproval updatedExpense (fst st1)
                          remaining d2,
                        d2))))"

text \<open>\<open>!comments || comments.trim().length === 0\<close>\<close>

definition comments_missing :: "js_string option \<Rightarrow> bool" where
  "comments_missing c =
     (case c of None \<Rightarrow> True | Some s \<Rightarrow> s = [] \<or> length (trim s) = 0)"

definition cascade_comment :: js_string where
  "cascade_comment = utf16 ''Rejected due to prior rejection in approval chain''"

text \<open>
  \<open>UPDATE approvals SET status = 'rejected', comments = '...', approved_at =
  CURRENT_TIMESTAMP WHERE expense_id = $1 AND status = 'pending' AND id != $2\<close>
\<close>

definition reject_others :: "timestamp \<Rightarrow> uuid \<Rightarrow> uuid \<Rightarrow> db \<Rightarrow> db" where
  "reject_others now eid i d =
     d\<lparr>approvals :=
          map (\<lambda>s. if a_expense_id s = eid \<and> a_status s = Pending \<and> a_id s \<noteq> i
                    then s\<lparr>a_status := Rejected, a_comments := Some cascade_comment,
                           a_approved_at := Some now\<rparr>
                    else s)
              (approvals d)\<rparr>"

record reject_body =
  rb_approval :: approval
  rb_approver :: user
  rb_expense_status :: expense_status
  rb_submitter :: user

text \<open>
  The response of \<open>rejectExpense\<close>, built after \<open>COMMIT\<close> from the approver's row and
  the submitter's row (\<open>updatedExpense.user_id\<close>); a missing row makes the handler throw.
\<close>

definition reject_response ::
  "uuid \<Rightarrow> approval option \<Rightarrow> expense option \<Rightarrow> db \<Rightarrow> http_error + reject_body" where
  "reject_response userId updatedApproval updatedExpense d3 =
     (case updatedApproval of
        None \<Rightarrow> Inl InternalError
      | Some ua \<Rightarrow>
          (case updatedExpense of
             None \<Rightarrow> Inl InternalError
           | Some ue \<Rightarrow>
               (case filter (\<lambda>u. u_id u = userId) (users d3) of
                  [] \<Rightarrow> Inl InternalError
                | approverDetails # _ \<Rightarrow>
                    (case filter (\<lambda>u. u_id u = e_user_id ue) (users d3) of
                       [] \<Rightarrow> Inl InternalError
                     | submitterDetails # _ \<Rightarrow>
                         Inr \<lparr>rb_approval = ua, rb_approver = approverDetails,
                              rb_expense_status = e_status ue,
                              rb_submitter = submitterDetails\<rparr>))))"

definition rejectExpense ::
  "timestamp \<Rightarrow> uuid \<Rightarrow> uuid \<Rightarrow> js_string option \<Rightarrow> db \<Rightarrow> (http_error + reject_body) \<times> db" where
  "rejectExpense now userId i comments d =
     (if comments_missing comments then (Inl CommentsRequired, d)
      else case approvalResult d i of
        [] \<Rightarrow> (Inl ApprovalNotFound, d)
      | (a, e) # _ \<Rightarrow>
          if a_approver_id a \<noteq> userId then (Inl AccessDenied, d)
          else if a_status a \<noteq> Pending then (Inl (InvalidApprovalStatus (a_status a)), d)
          else if e_status e \<noteq> EPending then (Inl (InvalidExpenseStatus (e_status e)), d)
          else
            (case nullable text_column comments of
               None \<Rightarrow> (Inl InternalError, d)
             | Some stored \<Rightarrow>
            let d1 = update_approval now i Rejected stored d;
                updatedApproval = first_row (filter (\<lambda>s. a_id s = i) (approvals d1));
                d2 = update_expense_status now (e_id e) ERejected d1;
                updatedExpense = first_row (filter (\<lambda>x. e_id x = e_id e) (expenses d2));
                d3 = reject_others now (e_id e) i d2
            in (reject_response userId updatedApproval updatedExpense d3, d3)))"

section \<open>Environment\<close>

text \<open>
  What the handlers take from outside the repository is a parameter of the model.

  The exchange-rate service: for a base currency, \<open>axios.get\<close> either throws
  (\<open>error.response.status\<close> set, a timeout code, or neither) or returns a response whose
  \<open>data.rates\<close> may be missing; the rates are JSON numbers.
\<close>

datatype oracle_result =
    AxiosHttpError nat
  | AxiosTimeout
  | AxiosNetworkError
  | OracleResponse "(js_string \<rightharpoonup> number) option"

text \<open>
  \<open>parseFloat\<close> (with the result \<open>NaN\<close> for a string that is no number),
  \<open>new Date(..)\<close> (\<open>None\<close> is an invalid date) and \<open>parseInt\<close> (\<open>None\<close> is \<open>NaN\<close>);
  \<open>String.prototype.toUpperCase\<close>, which follows the case mappings of Unicode; and
  what PostgreSQL stores for a number bound to a \<open>DECIMAL(10,2)\<close> parameter (it rounds
  the decimal text of the number to two places) and for a \<open>Date\<close> bound to a \<open>DATE\<close>
  parameter, \<open>None\<close> when it raises (a value out of the column's range).
\<close>

record env =
  env_parseFloat :: "string \<Rightarrow> number"
  env_parseDate :: "string \<Rightarrow> timestamp option"
  env_parseInt :: "string \<Rightarrow> int option"
  env_toUpperCase :: "js_string \<Rightarrow> js_string"
  env_oracle :: "js_string \<Rightarrow> oracle_result"
  env_decimal_10_2 :: "number \<Rightarrow> rat option"
  env_date :: "timestamp \<Rightarrow> timestamp option"

section \<open>utils/currencyConverter.js\<close>

text \<open>
  \<open>rateCache\<close> is a \<open>Map\<close> from the key \<open>`${from}_${to}`\<close> to \<open>{rate, timestamp}\<close>;
  \<open>CACHE_DURATION\<close> is one hour in milliseconds, as is the unit of \<open>Date.now()\<close>.
\<close>

record cache_entry =
  ce_rate :: number
  ce_timestamp :: timestamp

type_synonym rateCache = "js_string \<rightharpoonup> cache_entry"

definition CACHE_DURATION :: int where
  "CACHE_DURATION = 60 * 60 * 1000"

definition cacheKey :: "js_string \<Rightarrow> js_string \<Rightarrow> js_string" where
  "cacheKey fromCurrency toCurrency = fromCurrency @ utf16 ''_'' @ toCurrency"

datatype thrown =
    InvalidAmountForConversion
  | CurrencyCodesRequired
  | InvalidApiResponse
  | ExchangeRateNotFound
  | ThrownHttpError nat
  | ThrownTimeout
  | ThrownNetworkError

datatype event = CacheGet js_string | OracleGet js_string | CacheSet js_string

text \<open>
  The \<open>try\<close> block; \<open>amount\<close> is a number and the two codes are strings. A throw
  carries the values the variables \<open>fromCurrency\<close> and \<open>toCurrency\<close> hold at that moment
  (they are reassigned to upper case half way), since the \<open>catch\<close> block reads them.
  The third component lists the cache and service accesses in order.
\<close>

definition convertCurrency_try ::
  "timestamp \<Rightarrow> env \<Rightarrow> number \<Rightarrow> js_string \<Rightarrow> js_string \<Rightarrow> rateCache
   \<Rightarrow> ((thrown \<times> js_string \<times> js_string) + number) \<times> rateCache \<times> event list" where
  "convertCurrency_try now ev amount fromCurrency toCurrency cache =
     (if fromCurrency = toCurrency then (Inr (toFixed2 amount), cache, [])
      else if falsy_number amount \<or> num_le amount (Fin 0)
      then (Inl (InvalidAmountForConversion, fromCurrency, toCurrency), cache, [])
      else if fromCurrency = [] \<or> toCurrency = []
      then (Inl (CurrencyCodesRequired, fromCurrency, toCurrency), cache, [])
      else
        let f = env_toUpperCase ev fromCurrency;
            t = env_toUpperCase ev toCurrency;
            key = cacheKey f t;
            fresh = (case cache key of
                       None \<Rightarrow> None
                     | Some cd \<Rightarrow> if int now - int (ce_timestamp cd) < CACHE_DURATION
                                 then Some cd else None)
        in case fresh of
             Some cd \<Rightarrow> (Inr (toFixed2 (fmul amount (ce_rate cd))), cache, [CacheGet key])
           | None \<Rightarrow>
               (case env_oracle ev f of
                  AxiosHttpError st \<Rightarrow>
                    (Inl (ThrownHttpError st, f, t), cache, [CacheGet key, OracleGet f])
                | AxiosTimeout \<Rightarrow>
                    (Inl (ThrownTimeout, f, t), cache, [CacheGet key, OracleGet f])
                | AxiosNetworkError \<Rightarrow>
                    (Inl (ThrownNetworkError, f, t), cache, [CacheGet key, OracleGet f])
                | OracleResponse None \<Rightarrow>
                    (Inl (InvalidApiResponse, f, t), cache, [CacheGet key, OracleGet f])
                | OracleResponse (Some rates) \<Rightarrow>
                    (case rates t of
                       None \<Rightarrow>
                         (Inl (ExchangeRateNotFound, f, t), cache, [CacheGet key, OracleGet f])
                     | Some exchangeRate \<Rightarrow>
                         if falsy_number exchangeRate
                         then (Inl (ExchangeRateNotFound, f, t), cache,
                               [CacheGet key, OracleGet f])
                         else (Inr (toFixed2 (fmul amount exchangeRate)),
                               cache(key \<mapsto> \<lparr>ce_rate = exchangeRate, ce_timestamp = now\<rparr>),
                               [CacheGet key, OracleGet f, CacheSet key]))))"

text \<open>The error the \<open>catch\<close> block rethrows when it finds no cache entry.\<close>

fun rethrown :: "thrown \<Rightarrow> conversion_error" where
  "rethrown (ThrownHttpError st) = (if st = 404 then CurrencyNotSupported else ConversionFailed)"
| "rethrown ThrownTimeout = ServiceTimeout"
| "rethrown ThrownNetworkError = ServiceUnavailable"
| "rethrown InvalidAmountForConversion = ServiceUnavailable"
| "rethrown CurrencyCodesRequired = ServiceUnavailable"
| "rethrown InvalidApiResponse = ServiceUnavailable"
| "rethrown ExchangeRateNotFound = ServiceUnavailable"

definition convertCurrency ::
  "timestamp \<Rightarrow> env \<Rightarrow> number \<Rightarrow> js_string \<Rightarrow> js_string \<Rightarrow> rateCache
   \<Rightarrow> (conversion_error + number) \<times> rateCache \<times> event list" where
  "convertCurrency now ev amount fromCurrency toCurrency cache =
     (case convertCurrency_try now ev amount fromCurrency toCurrency cache of
        (Inr v, cache1, tr) \<Rightarrow> (Inr v, cache1, tr)
      | (Inl (err, f, t), cache1, tr) \<Rightarrow>
          (case cache1 (cacheKey f t) of
             Some cd \<Rightarrow>
               (Inr (toFixed2 (fmul amount (ce_rate cd))), cache1, tr @ [CacheGet (cacheKey f t)])
           | None \<Rightarrow> (Inl (rethrown err), cache1, tr @ [CacheGet (cacheKey f t)])))"

section \<open>expenseController: submitExpense\<close>

text \<open>\<open>req.user\<close>, as the authentication middleware leaves it.\<close>

record principal =
  p_id :: uuid
  p_company_id :: uuid
  p_role :: string

text \<open>\<open>req.body\<close> of a multipart submission and \<open>req.file.filename\<close>.\<close>

record submit_request =
  sr_amount :: "string option"
  sr_currency :: "js_string option"
  sr_category :: "js_string option"
  sr_description :: "js_string option"
  sr_date :: "string option"
  sr_file :: "js_string option"

text \<open>\<open>!x\<close> on a field that is a string or \<open>undefined\<close>.\<close>

definition falsy :: "'a list option \<Rightarrow> bool" where
  "falsy x = (x = None \<or> x = Some [])"

record chain_entry =
  ch_approval :: approval
  ch_approver_name :: string
  ch_approver_email :: string
  ch_approver_role :: string

record submit_body =
  sb_expense :: expense
  sb_company_currency :: js_string
  sb_submitter :: user
  sb_approval_chain :: "chain_entry list"
  sb_next_approver :: "chain_entry option"

text \<open>
  \<open>INSERT INTO expenses (...) VALUES (...) RETURNING *\<close>. The statement raises
  (\<open>None\<close>) when a value does not fit its column or when \<open>user_id\<close> or \<open>company_id\<close>
  references no row.
\<close>

definition insert_expense ::
  "timestamp \<Rightarrow> env \<Rightarrow> uuid \<Rightarrow> uuid \<Rightarrow> number \<Rightarrow> number \<Rightarrow> js_string \<Rightarrow> js_string
   \<Rightarrow> js_string option \<Rightarrow> timestamp \<Rightarrow> js_string option \<Rightarrow> db \<Rightarrow> (expense \<times> db) option" where
  "insert_expense now ev userId companyId convertedAmount expenseAmount cur category
                  description expenseDate receiptUrl d =
     do {
       amount \<leftarrow> env_decimal_10_2 ev convertedAmount;
       original_amount \<leftarrow> env_decimal_10_2 ev expenseAmount;
       original_currency \<leftarrow> varchar 3 cur;
       cat \<leftarrow> varchar 100 category;
       descr \<leftarrow> nullable text_column description;
       date \<leftarrow> env_date ev expenseDate;
       receipt_url \<leftarrow> nullable (varchar 500) receiptUrl;
       if filter (\<lambda>u. u_id u = userId) (users d) = []
          \<or> filter (\<lambda>c. c_id c = companyId) (companies d) = []
       then None
       else
         (let row =
            \<lparr>e_id = next_id d, e_user_id = userId, e_company_id = companyId,
             e_amount = amount, e_original_amount = original_amount,
             e_original_currency = original_currency, e_category = cat,
             e_description = descr, e_date = date, e_status = EPending,
             e_receipt_url = receipt_url, e_created_at = now, e_updated_at = now\<rparr>
          in Some (row, d\<lparr>expenses := expenses d @ [row], next_id := next_id d + 1\<rparr>))
     }"

text \<open>
  \<open>INSERT INTO approvals (expense_id, approver_id, sequence, status)
  VALUES ($1, $2, $3, 'pending') RETURNING ...\<close>
\<close>

definition insert_approval :: "timestamp \<Rightarrow> uuid \<Rightarrow> uuid \<Rightarrow> int \<Rightarrow> db \<Rightarrow> approval \<times> db" where
  "insert_approval now eid approverId sq d =
     (let row = \<lparr>a_id = next_id d, a_expense_id = eid, a_approver_id = approverId,
                 a_sequence = sq, a_status = Pending, a_comments = None,
                 a_approved_at = None, a_created_at = now\<rparr>
      in (row, d\<lparr>approvals := approvals d @ [row], next_id := next_id d + 1\<rparr>))"

text \<open>\<open>SELECT manager_id FROM users WHERE id = $1\<close>, then \<open>rows[0]?.manager_id\<close>.\<close>

definition managerId_of :: "db \<Rightarrow> uuid \<Rightarrow> uuid option" where
  "managerId_of d userId =
     (case filter (\<lambda>u. u_id u = userId) (users d) of [] \<Rightarrow> None | u # _ \<Rightarrow> u_manager_id u)"

text \<open>
  \<open>SELECT a.user_id, a.sequence, u.name, u.email, u.role FROM approvers a
  JOIN users u ON a.user_id = u.id
  WHERE a.company_id = $1 AND a.is_active = true ORDER BY a.sequence ASC\<close>.
  PostgreSQL returns rows of equal sequence in an order of its choice; here they stay in
  table order, and no statement about the chain depends on it.
\<close>

definition additionalApprovers :: "db \<Rightarrow> uuid \<Rightarrow> (approver \<times> user) list" where
  "additionalApprovers d companyId =
     sort_key (\<lambda>row. ap_sequence (fst row))
       (concat (map (\<lambda>a. map (\<lambda>u. (a, u)) (filter (\<lambda>u. u_id u = ap_user_id a) (users d)))
                    (filter (\<lambda>a. ap_company_id a = companyId \<and> ap_is_active a) (approvers d))))"

text \<open>
  The loop \<open>for (const approver of additionalApprovers.rows)\<close>; its state is the
  database, \<open>approvalChain\<close> and the counter \<open>sequence\<close>.
\<close>

fun additional_loop ::
  "timestamp \<Rightarrow> uuid \<Rightarrow> uuid option \<Rightarrow> (approver \<times> user) list
   \<Rightarrow> db \<times> chain_entry list \<times> int \<Rightarrow> db \<times> chain_entry list \<times> int" where
  "additional_loop now eid managerId [] st = st"
| "additional_loop now eid managerId (row # rest) (d, approvalChain, sq) =
     (if Some (ap_user_id (fst row)) = managerId
      then additional_loop now eid managerId rest (d, approvalChain, sq)
      else
        let (ins, d1) = insert_approval now eid (ap_user_id (fst row)) sq d
        in additional_loop now eid managerId rest
             (d1,
              approvalChain @ [\<lparr>ch_approval = ins, ch_approver_name = u_name (snd row),
                                 ch_approver_email = u_email (snd row),
                                 ch_approver_role = u_role (snd row)\<rparr>],
              sq + 1))"

text \<open>
  The validation prefix of \<open>submitExpense\<close>: required fields, amount, date, and the
  company row with its currency.
\<close>

definition validate_submission ::
  "env \<Rightarrow> principal \<Rightarrow> submit_request \<Rightarrow> db \<Rightarrow> http_error + (number \<times> timestamp \<times> company)" where
  "validate_submission ev usr req d =
     (if falsy (sr_amount req) \<or> falsy (sr_currency req) \<or> falsy (sr_category req)
         \<or> falsy (sr_date req)
      then Inl MissingRequiredFields
      else (let expenseAmount = env_parseFloat ev (the (sr_amount req))
            in (if expenseAmount = NaN \<or> num_le expenseAmount (Fin 0) then Inl InvalidAmount
                else (case env_parseDate ev (the (sr_date req)) of
                        None \<Rightarrow> Inl InvalidDateFormat
                      | Some expenseDate \<Rightarrow>
                          (case filter (\<lambda>c. c_id c = p_company_id usr) (companies d) of
                             [] \<Rightarrow> Inl CompanyNotFound
                           | companyRow # _ \<Rightarrow>
                               Inr (expenseAmount, expenseDate, companyRow))))))"

text \<open>
  Step 1 of the chain: the manager's slot at sequence 1. \<open>None\<close> is the \<open>TypeError\<close> of
  \<open>managerDetails.rows[0].name\<close> when the manager's row is missing.
\<close>

definition manager_step ::
  "timestamp \<Rightarrow> uuid \<Rightarrow> uuid option \<Rightarrow> db \<Rightarrow> (db \<times> chain_entry list \<times> int) option" where
  "manager_step now eid managerId d1 =
     (case managerId of
        None \<Rightarrow> Some (d1, [], 1)
      | Some m \<Rightarrow>
          (let (ins, d2) = insert_approval now eid m 1 d1
           in (case filter (\<lambda>u. u_id u = m) (users d2) of
                 [] \<Rightarrow> None
               | mu # _ \<Rightarrow>
                   Some (d2,
                         [\<lparr>ch_approval = ins, ch_approver_name = u_name mu,
                            ch_approver_email = u_email mu, ch_approver_role = u_role mu\<rparr>],
                         2))))"

text \<open>Steps 1 and 2 together: the database and \<open>approvalChain\<close> after the loop.\<close>

definition build_chain ::
  "timestamp \<Rightarrow> principal \<Rightarrow> uuid \<Rightarrow> db \<Rightarrow> (db \<times> chain_entry list) option" where
  "build_chain now usr eid d1 =
     (let managerId = managerId_of d1 (p_id usr)
      in (case manager_step now eid managerId d1 of
            None \<Rightarrow> None
          | Some st \<Rightarrow>
              (let (d3, approvalChain, sq) =
                     additional_loop now eid managerId
                       (additionalApprovers (fst st) (p_company_id usr)) st
               in Some (d3, approvalChain))))"

text \<open>
  The part of \<open>submitExpense\<close> after the expense row is inserted: \<open>d\<close> is the database
  before the transaction, \<open>d1\<close> the one holding the new row \<open>expense0\<close>. A row that
  \<open>rows[0]\<close> expects and does not find makes the handler throw, which its \<open>catch\<close>
  answers with status 500 after a \<open>ROLLBACK\<close> (without effect once the transaction is
  committed).
\<close>

definition submit_after_insert ::
  "timestamp \<Rightarrow> principal \<Rightarrow> company \<Rightarrow> expense \<Rightarrow> db \<Rightarrow> rateCache \<Rightarrow> db
   \<Rightarrow> (http_error + submit_body) \<times> db \<times> rateCache" where
  "submit_after_insert now usr companyRow expense0 d cache1 d1 =
     (case build_chain now usr (e_id expense0) d1 of
        None \<Rightarrow> (Inl InternalError, d, cache1)
      | Some (d3, approvalChain) \<Rightarrow>
          (let autoApprove = (approvalChain = [] \<and> p_role usr = ''admin'');
               d4 = (if autoApprove
                     then update_expense_status now (e_id expense0) EApproved d3
                     else d3);
               expense1 = (if autoApprove
                           then expense0\<lparr>e_status := EApproved\<rparr>
                           else expense0)
           in (case filter (\<lambda>u. u_id u = p_id usr) (users d4) of
                 [] \<Rightarrow> (Inl InternalError, d4, cache1)
               | submitter # _ \<Rightarrow>
                   (Inr \<lparr>sb_expense = expense1,
                         sb_company_currency = c_currency companyRow,
                         sb_submitter = submitter,
                         sb_approval_chain = approvalChain,
                         sb_next_approver = first_row approvalChain\<rparr>,
                    d4, cache1))))"

text \<open>
  \<open>submitExpense\<close>. The rate cache lives in the process, so a \<open>ROLLBACK\<close> restores the
  database but not the cache. An \<open>INSERT\<close> that raises is answered by the \<open>catch\<close>
  block: \<open>ROLLBACK\<close> and status 500.
\<close>

definition submitExpense ::
  "timestamp \<Rightarrow> env \<Rightarrow> principal \<Rightarrow> submit_request \<Rightarrow> db \<Rightarrow> rateCache
   \<Rightarrow> (http_error + submit_body) \<times> db \<times> rateCache" where
  "submitExpense now ev usr req d cache =
     (case validate_submission ev usr req d of
        Inl err \<Rightarrow> (Inl err, d, cache)
      | Inr (expenseAmount, expenseDate, companyRow) \<Rightarrow>
          (case convertCurrency now ev expenseAmount
                  (env_toUpperCase ev (the (sr_currency req)))
                  (env_toUpperCase ev (c_currency companyRow)) cache of
             (Inl cerr, cache1, tr) \<Rightarrow> (Inl (CurrencyConversionFailed cerr), d, cache1)
           | (Inr convertedAmount, cache1, tr) \<Rightarrow>
               (case insert_expense now ev (p_id usr) (p_company_id usr) convertedAmount
                       expenseAmount (env_toUpperCase ev (the (sr_currency req)))
                       (the (sr_category req)) (or_null (sr_description req))
                       expenseDate (map_option (\<lambda>f. utf16 ''/uploads/'' @ f) (sr_file req)) d of
                  None \<Rightarrow> (Inl InternalError, d, cache1)
                | Some (expense0, d1) \<Rightarrow>
                    submit_after_insert now usr companyRow expense0 d cache1 d1)))"

text \<open>
  The body of \<open>res.status(201).json({...})\<close> as a JSON value: objects are lists of
  key and value in the order the source writes them. \<open>JString\<close> holds a string the
  handlers only copy, \<open>JText\<close> a JavaScript string, and \<open>JNumber\<close> the value that
  stands for an identifier, a timestamp or a \<open>DECIMAL\<close> column.
\<close>

datatype json =
    JNull
  | JString string
  | JText js_string
  | JNumber rat
  | JArray "json list"
  | JObject "(string \<times> json) list"

fun approval_status_string :: "approval_status \<Rightarrow> string" where
  "approval_status_string Pending = ''pending''"
| "approval_status_string Approved = ''approved''"
| "approval_status_string Rejected = ''rejected''"

fun expense_status_string :: "expense_status \<Rightarrow> string" where
  "expense_status_string EPending = ''pending''"
| "expense_status_string EApproved = ''approved''"
| "expense_status_string ERejected = ''rejected''"
| "expense_status_string EDraft = ''draft''"

definition json_opt_string :: "js_string option \<Rightarrow> json" where
  "json_opt_string x = (case x of None \<Rightarrow> JNull | Some s \<Rightarrow> JText s)"

definition chain_entry_json :: "chain_entry \<Rightarrow> json" where
  "chain_entry_json c =
     JObject [(''id'', JNumber (of_nat (a_id (ch_approval c)))),
              (''approver_id'', JNumber (of_nat (a_approver_id (ch_approval c)))),
              (''sequence'', JNumber (of_int (a_sequence (ch_approval c)))),
              (''status'', JString (approval_status_string (a_status (ch_approval c)))),
              (''created_at'', JNumber (of_nat (a_created_at (ch_approval c)))),
              (''approver_name'', JString (ch_approver_name c)),
              (''approver_email'', JString (ch_approver_email c)),
              (''approver_role'', JString (ch_approver_role c))]"

definition submit_json :: "submit_body \<Rightarrow> json" where
  "submit_json b =
     JObject
       [(''message'', JString ''Expense submitted successfully''),
        (''expense'',
         JObject [(''id'', JNumber (of_nat (e_id (sb_expense b)))),
                  (''amount'', JNumber (e_amount (sb_expense b))),
                  (''original_amount'', JNumber (e_original_amount (sb_expense b))),
                  (''original_currency'', JText (e_original_currency (sb_expense b))),
                  (''company_currency'', JText (sb_company_currency b)),
                  (''category'', JText (e_category (sb_expense b))),
                  (''description'', json_opt_string (e_description (sb_expense b))),
                  (''date'', JNumber (of_nat (e_date (sb_expense b)))),
                  (''status'', JString (expense_status_string (e_status (sb_expense b)))),
                  (''receipt_url'', json_opt_string (e_receipt_url (sb_expense b))),
                  (''created_at'', JNumber (of_nat (e_created_at (sb_expense b)))),
                  (''submitter'',
                   JObject [(''id'', JNumber (of_nat (u_id (sb_submitter b)))),
                            (''name'', JString (u_name (sb_submitter b))),
                            (''email'', JString (u_email (sb_submitter b)))])]),
        (''approval_chain'', JArray (map chain_entry_json (sb_approval_chain b))),
        (''next_approver'',
         (case sb_next_approver b of None \<Rightarrow> JNull | Some c \<Rightarrow> chain_entry_json c))]"

text \<open>The keys of a JSON object, at every depth.\<close>

fun json_keys :: "json \<Rightarrow> string list" where
  "json_keys JNull = []"
| "json_keys (JString s) = []"
| "json_keys (JText s) = []"
| "json_keys (JNumber n) = []"
| "json_keys (JArray xs) = concat (map json_keys xs)"
| "json_keys (JObject kvs) = concat (map (\<lambda>kv. fst kv # json_keys (snd kv)) kvs)"

section \<open>configController: updateApproverSequence\<close>

text \<open>
  The schema declares \<open>UNIQUE(company_id, role_name, sequence)\<close> on \<open>approvers\<close>. An
  \<open>UPDATE\<close> that leaves two rows with the same triple raises; \<open>None\<close> is that error.
  The column \<open>sequence\<close> is a 32-bit \<open>INTEGER\<close>: a statement with a parameter for it
  outside that range raises.
\<close>

definition pg_integer :: "int \<Rightarrow> bool" where
  "pg_integer n = (- 2147483648 \<le> n \<and> n \<le> 2147483647)"

definition approvers_unique :: "approver list \<Rightarrow> bool" where
  "approvers_unique rows =
     distinct (map (\<lambda>a. (ap_company_id a, ap_role_name a, ap_sequence a)) rows)"

text \<open>\<open>UPDATE approvers SET sequence = $1 WHERE id = $2\<close>\<close>

definition update_sequence :: "int \<Rightarrow> uuid \<Rightarrow> db \<Rightarrow> db option" where
  "update_sequence sq i d =
     (let rows = map (\<lambda>a. if ap_id a = i then a\<lparr>ap_sequence := sq\<rparr> else a) (approvers d)
      in if pg_integer sq \<and> approvers_unique rows then Some (d\<lparr>approvers := rows\<rparr>) else None)"

record swapped =
  sw_id :: uuid
  sw_user_name :: string
  sw_role_name :: string
  sw_old_sequence :: int
  sw_new_sequence :: int

record update_body =
  ub_unchanged :: bool
  ub_id :: uuid
  ub_old_sequence :: int
  ub_new_sequence :: int
  ub_swapped_with :: "swapped option"

text \<open>
  \<open>SELECT a.*, u.name FROM approvers a JOIN users u ON a.user_id = u.id
  WHERE a.id = $1 AND a.company_id = $2\<close>
\<close>

definition approverResult :: "db \<Rightarrow> uuid \<Rightarrow> uuid \<Rightarrow> (approver \<times> user) list" where
  "approverResult d i companyId =
     concat (map (\<lambda>a. map (\<lambda>u. (a, u)) (filter (\<lambda>u. u_id u = ap_user_id a) (users d)))
                 (filter (\<lambda>a. ap_id a = i \<and> ap_company_id a = companyId) (approvers d)))"

text \<open>
  \<open>SELECT ... FROM approvers
  WHERE company_id = $1 AND sequence = $2 AND id != $3 AND is_active = true\<close>
\<close>

definition conflictResult :: "db \<Rightarrow> uuid \<Rightarrow> int \<Rightarrow> uuid \<Rightarrow> approver list" where
  "conflictResult d companyId sq i =
     filter (\<lambda>a. ap_company_id a = companyId \<and> ap_sequence a = sq \<and> ap_id a \<noteq> i
                 \<and> ap_is_active a)
            (approvers d)"

text \<open>
  The conflict branch: the occupant of the new sequence takes \<open>oldSequence\<close>. \<open>None\<close> is
  a throw (the conflict query on a sequence that is no \<open>INTEGER\<close>, the constraint, or
  \<open>conflictUserResult.rows[0].name\<close> on a missing row).
\<close>

definition swap_step ::
  "principal \<Rightarrow> uuid \<Rightarrow> int \<Rightarrow> int \<Rightarrow> db \<Rightarrow> (db \<times> swapped option) option" where
  "swap_step usr i oldSequence sequenceNum d =
     (if \<not> pg_integer sequenceNum then None
      else case conflictResult d (p_company_id usr) sequenceNum i of
        [] \<Rightarrow> Some (d, None)
      | conflictingApprover # _ \<Rightarrow>
          (case update_sequence oldSequence (ap_id conflictingApprover) d of
             None \<Rightarrow> None
           | Some d1 \<Rightarrow>
               (case filter (\<lambda>u. u_id u = ap_user_id conflictingApprover) (users d1) of
                  [] \<Rightarrow> None
                | cu # _ \<Rightarrow>
                    Some (d1,
                          Some \<lparr>sw_id = ap_id conflictingApprover,
                                sw_user_name = u_name cu,
                                sw_role_name = ap_role_name conflictingApprover,
                                sw_old_sequence = ap_sequence conflictingApprover,
                                sw_new_sequence = oldSequence\<rparr>))))"

text \<open>
  \<open>updateApproverSequence\<close>: \<open>newSequence\<close> is \<open>None\<close> when \<open>req.body.newSequence\<close> is
  \<open>undefined\<close>, else the string \<open>parseInt\<close> reads.
\<close>

definition updateApproverSequence ::
  "env \<Rightarrow> principal \<Rightarrow> uuid \<Rightarrow> string option \<Rightarrow> db \<Rightarrow> (http_error + update_body) \<times> db" where
  "updateApproverSequence ev usr i newSequence d =
     (case newSequence of
        None \<Rightarrow> (Inl MissingRequiredFields, d)
      | Some raw \<Rightarrow>
          (case env_parseInt ev raw of
             None \<Rightarrow> (Inl InvalidSequence, d)
           | Some sequenceNum \<Rightarrow>
               (if sequenceNum < 1 then (Inl InvalidSequence, d)
                else (case approverResult d i (p_company_id usr) of
                        [] \<Rightarrow> (Inl ApproverNotFound, d)
                      | (approver, au) # _ \<Rightarrow>
                          (if ap_sequence approver = sequenceNum
                           then (Inr \<lparr>ub_unchanged = True, ub_id = ap_id approver,
                                      ub_old_sequence = ap_sequence approver,
                                      ub_new_sequence = ap_sequence approver,
                                      ub_swapped_with = None\<rparr>, d)
                           else (case swap_step usr i (ap_sequence approver) sequenceNum d of
                                   None \<Rightarrow> (Inl InternalError, d)
                                 | Some (d1, swappedWith) \<Rightarrow>
                                     (case update_sequence sequenceNum i d1 of
                                        None \<Rightarrow> (Inl InternalError, d)
                                      | Some d2 \<Rightarrow>
                                          (case filter (\<lambda>a. ap_id a = i) (approvers d2) of
                                             [] \<Rightarrow> (Inl InternalError, d2)
                                           | upd # _ \<Rightarrow>
                                               (Inr \<lparr>ub_unchanged = False, ub_id = ap_id upd,
                                                     ub_old_sequence = ap_sequence approver,
                                                     ub_new_sequence = ap_sequence upd,
                                                     ub_swapped_with = swappedWith\<rparr>,
                                                d2)))))))))"

section \<open>configController: setApprovalRule\<close>

text \<open>
  \<open>CHECK (rule_type IN ('amount_threshold', 'category_based', 'role_based'))\<close> of
  \<open>approval_rules\<close>.
\<close>

definition rule_type_check :: "string \<Rightarrow> bool" where
  "rule_type_check t = (t \<in> set [''amount_threshold'', ''category_based'', ''role_based''])"

definition validRuleTypes :: "string list" where
  "validRuleTypes =
     [''percentage'', ''specific_approver'', ''hybrid'', ''amount_threshold'', ''category_based'',
      ''role_based'']"

text \<open>\<open>SELECT id FROM users WHERE id = $1 AND company_id = $2\<close>\<close>

definition approverCheck :: "db \<Rightarrow> uuid \<Rightarrow> uuid \<Rightarrow> user list" where
  "approverCheck d i companyId = filter (\<lambda>u. u_id u = i \<and> u_company_id u = companyId) (users d)"

text \<open>
  The three blocks that validate \<open>ruleConfig\<close> by rule type; \<open>None\<close> when none of them
  returns. The comparisons are those of numbers, false on \<open>NaN\<close>.
\<close>

definition validate_rule :: "db \<Rightarrow> uuid \<Rightarrow> string \<Rightarrow> rule_config \<Rightarrow> http_error option" where
  "validate_rule d companyId ruleType cfg =
     (if ruleType = ''percentage''
      then (case (cfg_percentage cfg, cfg_total_approvers cfg) of
              (Some p, Some t) \<Rightarrow>
                if num_lt p (Fin 1) \<or> num_lt (Fin 100) p then Some InvalidPercentageValue
                else if num_lt t (Fin 1) then Some InvalidTotalApprovers
                else None
            | _ \<Rightarrow> Some InvalidPercentageRule)
      else if ruleType = ''specific_approver''
      then (case cfg_approver_id cfg of
              None \<Rightarrow> Some InvalidSpecificApproverRule
            | Some a \<Rightarrow> if approverCheck d a companyId = [] then Some ApproverNotFound else None)
      else if ruleType = ''hybrid''
      then (case (cfg_percentage cfg, cfg_total_approvers cfg, cfg_special_approver_id cfg) of
              (Some p, Some t, Some a) \<Rightarrow>
                if falsy_number p \<or> falsy_number t then Some InvalidHybridRule
                else if approverCheck d a companyId = [] then Some SpecialApproverNotFound
                else None
            | _ \<Rightarrow> Some InvalidHybridRule)
      else None)"

text \<open>
  \<open>SELECT id FROM approval_rules WHERE company_id = $1 AND rule_type = $2 AND is_active =
  true\<close> and \<open>UPDATE approval_rules SET is_active = false WHERE id = $1\<close>
\<close>

definition existingRule :: "db \<Rightarrow> uuid \<Rightarrow> string \<Rightarrow> approval_rule list" where
  "existingRule d companyId ruleType =
     filter (\<lambda>r. r_company_id r = companyId \<and> r_rule_type r = ruleType \<and> r_is_active r)
            (approval_rules d)"

definition deactivate_rule :: "uuid \<Rightarrow> db \<Rightarrow> db" where
  "deactivate_rule i d =
     d\<lparr>approval_rules :=
          map (\<lambda>r. if r_id r = i then r\<lparr>r_is_active := False\<rparr> else r) (approval_rules d)\<rparr>"

text \<open>
  \<open>INSERT INTO approval_rules (company_id, rule_type, rule_config) VALUES ($1, $2, $3)
  RETURNING *\<close>. The statement raises (\<open>None\<close>) when the rule type fails the \<open>CHECK\<close> of
  the table or the company does not exist.
\<close>

definition insert_rule :: "uuid \<Rightarrow> string \<Rightarrow> rule_config \<Rightarrow> db \<Rightarrow> (approval_rule \<times> db) option" where
  "insert_rule companyId ruleType cfg d =
     (if rule_type_check ruleType \<and> filter (\<lambda>c. c_id c = companyId) (companies d) \<noteq> []
      then (let row = \<lparr>r_id = next_id d, r_company_id = companyId, r_rule_type = ruleType,
                        r_rule_config = cfg, r_is_active = True\<rparr>
            in Some (row, d\<lparr>approval_rules := approval_rules d @ [row],
                         next_id := next_id d + 1\<rparr>))
      else None)"

text \<open>
  \<open>setApprovalRule\<close>, the only statement of the repository that adds a row to
  \<open>approval_rules\<close>. \<open>ruleType\<close> is a string and \<open>ruleConfig\<close> a JSON object, or they
  are absent. The handler opens no transaction: when the \<open>INSERT\<close> raises, the \<open>catch\<close>
  block answers 500 and an earlier \<open>UPDATE\<close> stays.
\<close>

definition setApprovalRule ::
  "principal \<Rightarrow> string option \<Rightarrow> rule_config option \<Rightarrow> db \<Rightarrow> (http_error + approval_rule) \<times> db" where
  "setApprovalRule usr ruleType ruleConfig d =
     (case (ruleType, ruleConfig) of
        (Some ty, Some cfg) \<Rightarrow>
          if ty = [] then (Inl MissingRequiredFields, d)
          else if ty \<notin> set validRuleTypes then (Inl InvalidRuleType, d)
          else (case validate_rule d (p_company_id usr) ty cfg of
                  Some err \<Rightarrow> (Inl err, d)
                | None \<Rightarrow>
                    (let d1 = (case existingRule d (p_company_id usr) ty of
                                 [] \<Rightarrow> d
                               | old # _ \<Rightarrow> deactivate_rule (r_id old) d)
                     in (case insert_rule (p_company_id usr) ty cfg d1 of
                           None \<Rightarrow> (Inl InternalError, d1)
                         | Some (rule, d2) \<Rightarrow> (Inr rule, d2))))
      | _ \<Rightarrow> (Inl MissingRequiredFields, d))"

section \<open>Scenarios\<close>

text \<open>Rows with the columns a scenario does not care about filled in.\<close>

definition mk_slot :: "uuid \<Rightarrow> uuid \<Rightarrow> uuid \<Rightarrow> int \<Rightarrow> approval_status \<Rightarrow> approval" where
  "mk_slot i eid u sq st =
     \<lparr>a_id = i, a_expense_id = eid, a_approver_id = u, a_sequence = sq, a_status = st,
      a_comments = None, a_approved_at = None, a_created_at = 0\<rparr>"

definition mk_expense :: "uuid \<Rightarrow> uuid \<Rightarrow> uuid \<Rightarrow> expense_status \<Rightarrow> expense" where
  "mk_expense i u c st =
     \<lparr>e_id = i, e_user_id = u, e_company_id = c, e_amount = 100, e_original_amount = 100,
      e_original_currency = utf16 ''USD'', e_category = utf16 ''Travel'', e_description = None,
      e_date = 0, e_status = st, e_receipt_url = None, e_created_at = 0, e_updated_at = 0\<rparr>"

definition mk_user :: "uuid \<Rightarrow> string \<Rightarrow> uuid option \<Rightarrow> user" where
  "mk_user i role m =
     \<lparr>u_id = i, u_company_id = 7, u_name = ''name'', u_email = ''mail'', u_role = role,
      u_manager_id = m\<rparr>"


definition principal_of :: "uuid \<Rightarrow> string \<Rightarrow> principal" where
  "principal_of i role = \<lparr>p_id = i, p_company_id = 7, p_role = role\<rparr>"

text \<open>
  A chain of \<open>n\<close> pending slots on expense 1 of company 7, submitted by the employee
  100: slot \<open>10 + k\<close> has sequence \<open>k\<close> and approver \<open>100 + k\<close>. The last approver is
  the company's admin, the others are managers. The company has no approval rule.
\<close>

definition chain_db :: "nat \<Rightarrow> db" where
  "chain_db n =
     \<lparr>approvals = map (\<lambda>k. mk_slot (10 + k) 1 (100 + k) (int k) Pending) [1..<Suc n],
      expenses = [mk_expense 1 100 7 EPending], approvers = [], approval_rules = [],
      users = map (\<lambda>k. mk_user (100 + k)
                          (if k = 0 then ''employee'' else if k = n then ''admin'' else ''manager'')
                          None)
                  [0..<Suc n],
      companies = [\<lparr>c_id = 7, c_currency = utf16 ''USD''\<rparr>], next_id = 60\<rparr>"






text \<open>
  Scenarios S2 and S3: the chain manager (101), finance (102), CEO (103). In \<open>s3_db\<close>
  nobody has decided; in \<open>s2_db\<close> the manager has approved; in \<open>s2_rejected\<close> finance has
  then rejected with the comment "missing receipt".
\<close>

definition s3_db :: db where
  "s3_db = chain_db 3"

definition s2_db :: db where
  "s2_db = snd (approveExpense 1 101 11 (Some (utf16 ''ok'')) s3_db)"

definition s2_rejected :: db where
  "s2_rejected = snd (rejectExpense 2 102 12 (Some (utf16 ''missing receipt'')) s2_db)"

text \<open>
  A four-slot chain whose expense is marked approved while slots 3 and 4 are pending (the
  schema relates the status of an expense to its slots by no constraint).
\<close>

definition terminated_db :: db where
  "terminated_db =
     (chain_db 4)
       \<lparr>approvals := [mk_slot 11 1 101 1 Approved, mk_slot 12 1 102 2 Approved,
                      mk_slot 13 1 103 3 Pending, mk_slot 14 1 104 4 Pending],
        expenses := [mk_expense 1 100 7 EApproved]\<rparr>"

text \<open>
  Submissions. Company 7 has base currency USD. User 100 is an employee whose manager is
  101; 101 is a manager, 102 an admin and 103 a manager, none of them with a manager of
  their own; 104 is an employee without a manager.
\<close>

definition mk_approver :: "uuid \<Rightarrow> uuid \<Rightarrow> uuid \<Rightarrow> string \<Rightarrow> int \<Rightarrow> bool \<Rightarrow> approver" where
  "mk_approver i c u role sq act =
     \<lparr>ap_id = i, ap_company_id = c, ap_user_id = u, ap_role_name = role, ap_sequence = sq,
      ap_is_active = act\<rparr>"

definition company_db :: "approver list \<Rightarrow> db" where
  "company_db rows =
     \<lparr>approvals = [], expenses = [], approvers = rows, approval_rules = [],
      users = [mk_user 100 ''employee'' (Some 101), mk_user 101 ''manager'' None,
               mk_user 102 ''admin'' None, mk_user 103 ''manager'' None,
               mk_user 104 ''employee'' None],
      companies = [\<lparr>c_id = 7, c_currency = utf16 ''USD''\<rparr>], next_id = 60\<rparr>"

text \<open>
  The request of scenario S5, \<open>amount=250.50, currency=EUR\<close>, and an environment for
  the scenarios: \<open>parseFloat\<close>, \<open>new Date\<close> and \<open>parseInt\<close> on the strings the
  scenarios pass to them; \<open>ascii_toUpperCase\<close>, which is \<open>toUpperCase\<close> on strings of
  ASCII characters; \<open>exact_decimal\<close>, which is what a \<open>DECIMAL(10,2)\<close> column stores
  for a double that is a multiple of 1/100 below \<open>10^8\<close> (the scenarios bind no other
  number to such a column); a \<open>DATE\<close> column that stores every date; and an
  exchange-rate service that times out.
\<close>

definition eur_request :: submit_request where
  "eur_request =
     \<lparr>sr_amount = Some ''250.50'', sr_currency = Some (utf16 ''EUR''),
      sr_category = Some (utf16 ''Travel''), sr_description = None,
      sr_date = Some ''2025-10-04'', sr_file = None\<rparr>"

definition usd_request :: submit_request where
  "usd_request = eur_request\<lparr>sr_amount := Some ''100.00'', sr_currency := Some (utf16 ''USD'')\<rparr>"

definition ascii_toUpperCase :: "js_string \<Rightarrow> js_string" where
  "ascii_toUpperCase s = map (\<lambda>c. if 0x61 \<le> c \<and> c \<le> 0x7A then c - 0x20 else c) s"

definition exact_decimal :: "number \<Rightarrow> rat option" where
  "exact_decimal x =
     (case x of
        Fin v \<Rightarrow> if v * 100 = of_int \<lfloor>v * 100\<rfloor> \<and> \<bar>v\<bar> < 10 ^ 8 then Some v else None
      | _ \<Rightarrow> None)"

definition timeout_env :: env where
  "timeout_env =
     \<lparr>env_parseFloat = (\<lambda>s. if s = ''250.50'' then Fin (501 / 2)
                             else if s = ''100.00'' then Fin 100 else NaN),
      env_parseDate = (\<lambda>s. if s = ''2025-10-04'' then Some 4 else None),
      env_parseInt = (\<lambda>s. if s = ''2'' then Some 2 else None),
      env_toUpperCase = ascii_toUpperCase,
      env_oracle = (\<lambda>base. AxiosTimeout),
      env_decimal_10_2 = exact_decimal,
      env_date = Some\<rparr>"



text \<open>
  An approver roster for company 7, stored out of order: the CEO (103) at sequence 3, the
  manager 101 at 2, finance (102) at 1, a removed row, and a row of another company.
\<close>

definition roster_db :: db where
  "roster_db =
     company_db [mk_approver 201 7 103 ''CEO'' 3 True, mk_approver 202 7 101 ''Manager'' 2 True,
                 mk_approver 203 7 102 ''Finance'' 1 True, mk_approver 204 7 104 ''Old'' 1 False,
                 mk_approver 205 8 102 ''Other'' 1 True]"

text \<open>Employee 100, whose manager is 101, submits 100.00 USD at time 5.\<close>

definition roster_submission :: "(http_error + submit_body) \<times> db \<times> rateCache" where
  "roster_submission =
     submitExpense 5 timeout_env (principal_of 100 ''employee'') usd_request roster_db Map.empty"

text \<open>
  The same submission in a company without approver rows, by the employee 104, who has no
  manager, and by the admin 102.
\<close>

definition employee_submission :: "(http_error + submit_body) \<times> db \<times> rateCache" where
  "employee_submission =
     submitExpense 5 timeout_env (principal_of 104 ''employee'') usd_request (company_db [])
       Map.empty"

definition admin_submission :: "(http_error + submit_body) \<times> db \<times> rateCache" where
  "admin_submission =
     submitExpense 5 timeout_env (principal_of 102 ''admin'') usd_request (company_db [])
       Map.empty"

text \<open>The keys of the body of a 201 response, at every depth (none for an error).\<close>

definition success_keys :: "http_error + submit_body \<Rightarrow> string list" where
  "success_keys r = (case r of Inl err \<Rightarrow> [] | Inr b \<Rightarrow> json_keys (submit_json b))"

definition success_chain :: "http_error + submit_body \<Rightarrow> approval list" where
  "success_chain r = (case r of Inl err \<Rightarrow> [] | Inr b \<Rightarrow> map ch_approval (sb_approval_chain b))"

text \<open>
  Scenario S6: Alice (row 201) at sequence 1, Bob (202) at 2, Carol (203) at 3, under three
  different role names; and the same roster with one role name for all three.
\<close>

definition s6_db :: db where
  "s6_db =
     company_db [mk_approver 201 7 101 ''Manager'' 1 True, mk_approver 202 7 102 ''Finance'' 2 True,
                 mk_approver 203 7 103 ''CEO'' 3 True]"

definition same_role_db :: db where
  "same_role_db =
     company_db [mk_approver 201 7 101 ''Approver'' 1 True,
                 mk_approver 202 7 102 ''Approver'' 2 True,
                 mk_approver 203 7 103 ''Approver'' 3 True]"

section \<open>Properties of the approval engine\<close>

lemma approvalResult_expense:
  assumes "approvalResult d i = (a, e) # rest"
  shows "e_id e = a_expense_id a \<and> a_id a = i"
proof -
  have "(a, e) \<in> set (approvalResult d i)" using assms by simp
  then show ?thesis by (auto simp: approvalResult_def)
qed

subsection \<open>Conditional rules\<close>

text \<open>
  What the rule loop computes: the expense is marked fully approved by a rule exactly when
  some active rule of type \<open>percentage\<close> has its \<open>required_percentage\<close> (100 when the key
  is absent) reached by the share of approved slots among the slots of the expense. Rules
  of any other type change nothing, and so do the rules of every type the schema admits.
\<close>

lemma rules_loop_fst:
  "fst (rules_loop d eid rules st) =
     (fst st \<or> (\<exists>r \<in> set rules. r_rule_type r = ''percentage''
                    \<and> num_le (requiredPercentage (r_rule_config r)) (approvedPercentage d eid)))"
  by (induction rules arbitrary: st) auto

lemma rules_loop_not_percentage:
  "list_all (\<lambda>r. r_rule_type r \<noteq> ''percentage'') rules \<Longrightarrow> rules_loop d eid rules st = st"
  by (induction rules arbitrary: st) auto

lemma rules_loop_schema:
  "list_all (\<lambda>r. rule_type_check (r_rule_type r)) rules \<Longrightarrow> rules_loop d eid rules st = st"
  by (induction rules arbitrary: st) (auto simp: rule_type_check_def)

text \<open>
  \<open>setApprovalRule\<close> never answers 201 for one of the rule types \<open>percentage\<close>,
  \<open>specific_approver\<close> and \<open>hybrid\<close>: a request that passes the validation of the
  handler ends in the \<open>INSERT\<close> that the \<open>CHECK\<close> of the table refuses. And it keeps
  every row of \<open>approval_rules\<close> within the types of the \<open>CHECK\<close>.
\<close>

lemma setApprovalRule_conditional_types:
  assumes "ty \<in> {''percentage'', ''specific_approver'', ''hybrid''}"
  shows "\<exists>err. fst (setApprovalRule usr (Some ty) cfg d) = Inl err"
  using assms
  by (auto simp: setApprovalRule_def insert_rule_def rule_type_check_def Let_def
           split: option.splits list.splits)

lemma setApprovalRule_keeps_check:
  assumes "list_all (\<lambda>r. rule_type_check (r_rule_type r)) (approval_rules d)"
  shows "list_all (\<lambda>r. rule_type_check (r_rule_type r))
           (approval_rules (snd (setApprovalRule usr ty cfg d)))"
  using assms
  by (auto simp: setApprovalRule_def insert_rule_def deactivate_rule_def Let_def list_all_iff
           split: option.splits list.splits if_splits)



subsection \<open>Sequential gating\<close>

lemma hd_filter_sort_key_Min:
  fixes f :: "'a \<Rightarrow> int"
  assumes "filter P (sort_key f xs) = u # us"
  shows "f u = Min (f ` {x \<in> set xs. P x})"
proof -
  have srt: "sorted (map f (filter P (sort_key f xs)))"
    by (simp add: sorted_filter)
  have st: "set (u # us) = {x \<in> set xs. P x}"
    using assms[symmetric] by auto
  have le: "\<forall>y \<in> set (u # us). f u \<le> f y"
    using srt unfolding assms by auto
  show ?thesis
  proof (rule Min_eqI[symmetric])
    show "finite (f ` {x \<in> set xs. P x})" by simp
    show "\<And>y. y \<in> f ` {x \<in> set xs. P x} \<Longrightarrow> f u \<le> y"
      using le st by auto
    show "f u \<in> f ` {x \<in> set xs. P x}"
      using st by auto
  qed
qed

lemma unapprovedPrevious_set:
  "set (unapprovedPrevious d eid sq) =
     {s \<in> set (approvals d). a_expense_id s = eid \<and> a_sequence s < sq \<and> a_status s \<noteq> Approved}"
  by (auto simp: unapprovedPrevious_def previousApprovals_def)

lemma unapprovedPrevious_hd:
  assumes "unapprovedPrevious d eid sq = u # us"
  shows "a_sequence u =
     Min (a_sequence ` {s \<in> set (approvals d).
            a_expense_id s = eid \<and> a_sequence s < sq \<and> a_status s \<noteq> Approved})"
proof -
  let ?prev = "filter (\<lambda>s. a_expense_id s = eid \<and> a_sequence s < sq) (approvals d)"
  have "a_sequence u = Min (a_sequence ` {x \<in> set ?prev. a_status x \<noteq> Approved})"
    using assms unfolding unapprovedPrevious_def previousApprovals_def
    by (rule hd_filter_sort_key_Min)
  moreover have "{x \<in> set ?prev. a_status x \<noteq> Approved} =
      {s \<in> set (approvals d). a_expense_id s = eid \<and> a_sequence s < sq \<and> a_status s \<noteq> Approved}"
    by auto
  ultimately show ?thesis by simp
qed

text \<open>
  C4, as stated, fails: the out-of-order check is the fifth check of \<open>approveExpense\<close>.
  On slot 3 of the undecided chain (slot 1 blocks it) a user who is not its approver gets
  "Access denied"; on slot 3 of the rejected chain (slot 2 is rejected, not approved) its
  approver gets "Invalid approval status"; on slot 4 of a chain whose expense is already
  approved (slot 3 is pending) its approver gets "Invalid expense status".
\<close>

theorem out_of_order_not_first_check:
  "map a_status (approvals s3_db) = [Pending, Pending, Pending]
   \<and> approveExpense 9 102 13 None s3_db = (Inl AccessDenied, s3_db)
   \<and> map a_status (approvals s2_rejected) = [Approved, Rejected, Rejected]
   \<and> approveExpense 9 103 13 None s2_rejected = (Inl (InvalidApprovalStatus Rejected), s2_rejected)
   \<and> map a_status (approvals terminated_db) = [Approved, Approved, Pending, Pending]
   \<and> approveExpense 9 104 14 None terminated_db
       = (Inl (InvalidExpenseStatus EApproved), terminated_db)"
  by code_simp

text \<open>
  C4, amended: when the assigned approver approves a pending slot of a pending expense and
  some slot of the same expense with a strictly lower sequence is not approved, the
  operation fails with the sequential-approval error, the error names the lowest such
  sequence, and the database is the one the operation started from.
\<close>

theorem approve_out_of_order:
  assumes "approvalResult d i = (a, e) # rest"
    and "a_approver_id a = userId" and "a_status a = Pending" and "e_status e = EPending"
    and "s \<in> set (approvals d)" and "a_expense_id s = a_expense_id a"
    and "a_sequence s < a_sequence a" and "a_status s \<noteq> Approved"
  shows "approveExpense now userId i comments d =
           (Inl (SequentialApprovalViolation
                  (Min (a_sequence ` {s \<in> set (approvals d).
                          a_expense_id s = a_expense_id a \<and> a_sequence s < a_sequence a
                          \<and> a_status s \<noteq> Approved}))), d)"
proof -
  have eid: "e_id e = a_expense_id a"
    using approvalResult_expense[OF assms(1)] by simp
  have "s \<in> set (unapprovedPrevious d (e_id e) (a_sequence a))"
    using assms(5-8) eid by (simp add: unapprovedPrevious_set)
  then obtain u us where u: "unapprovedPrevious d (e_id e) (a_sequence a) = u # us"
    by (cases "unapprovedPrevious d (e_id e) (a_sequence a)") auto
  have "a_sequence u = Min (a_sequence ` {s \<in> set (approvals d).
          a_expense_id s = a_expense_id a \<and> a_sequence s < a_sequence a
          \<and> a_status s \<noteq> Approved})"
    using unapprovedPrevious_hd[OF u] eid by simp
  then show ?thesis
    using assms(1-4) u by (simp add: approveExpense_def)
qed

text \<open>Scenario S3: the CEO (103) approves slot 3 before anybody else has decided.\<close>

lemma s3_out_of_order:
  "approveExpense 9 103 13 None s3_db = (Inl (SequentialApprovalViolation 1), s3_db)"
  by code_simp

theorem approve_out_of_order_witness:
  "approvalResult s3_db 13 = [(mk_slot 13 1 103 3 Pending, mk_expense 1 100 7 EPending)]
   \<and> mk_slot 12 1 102 2 Pending \<in> set (approvals s3_db)
   \<and> approveExpense 9 103 13 None s3_db =
       (Inl (SequentialApprovalViolation
              (Min (a_sequence ` {s \<in> set (approvals s3_db).
                      a_expense_id s = 1 \<and> a_sequence s < 3 \<and> a_status s \<noteq> Approved}))), s3_db)"
proof -
  have h1: "approvalResult s3_db 13 = [(mk_slot 13 1 103 3 Pending, mk_expense 1 100 7 EPending)]"
    by code_simp
  have h5: "mk_slot 12 1 102 2 Pending \<in> set (approvals s3_db)"
    by code_simp
  show ?thesis
    using h1 h5
      approve_out_of_order[of s3_db 13 "mk_slot 13 1 103 3 Pending" "mk_expense 1 100 7 EPending"
        "[]" 103 "mk_slot 12 1 102 2 Pending" 9 None]
    by (simp add: mk_slot_def mk_expense_def)
qed

text \<open>
  The checks that come before the out-of-order check: a missing slot, another user's
  slot, a decided slot and a slot of a terminated expense are refused in this order, and
  the database is the one the operation started from.
\<close>

lemma approve_earlier_guards:
  "(approvalResult d i = [] \<longrightarrow> approveExpense now userId i comments d = (Inl ApprovalNotFound, d))
   \<and> (approvalResult d i = (a, e) # rest \<and> a_approver_id a \<noteq> userId \<longrightarrow>
        approveExpense now userId i comments d = (Inl AccessDenied, d))
   \<and> (approvalResult d i = (a, e) # rest \<and> a_approver_id a = userId \<and> a_status a \<noteq> Pending \<longrightarrow>
        approveExpense now userId i comments d = (Inl (InvalidApprovalStatus (a_status a)), d))
   \<and> (approvalResult d i = (a, e) # rest \<and> a_approver_id a = userId \<and> a_status a = Pending
        \<and> e_status e \<noteq> EPending \<longrightarrow>
        approveExpense now userId i comments d = (Inl (InvalidExpenseStatus (e_status e)), d))"
  by (simp add: approveExpense_def)

subsection \<open>Decided slots and terminated expenses\<close>

text \<open>
  C5, as stated, fails for reject: \<open>rejectExpense\<close> checks the comment before it looks
  the slot up. The manager (101) has approved slot 1; a reject of that slot by the same
  user without a comment fails with "Comments are required", not with "Invalid approval
  status". And the slot's status is checked before the expense's: on the rejected chain,
  whose expense is terminal, finance (102) deciding the rejected slot 2 again gets
  "Invalid approval status", not "Invalid expense status".
\<close>

theorem decide_error_precedence:
  "map a_status (approvals s2_db) = [Approved, Pending, Pending]
   \<and> map a_approver_id (approvals s2_db) = [101, 102, 103]
   \<and> rejectExpense 9 101 11 None s2_db = (Inl CommentsRequired, s2_db)
   \<and> rejectExpense 9 101 11 (Some []) s2_db = (Inl CommentsRequired, s2_db)
   \<and> map e_status (expenses s2_rejected) = [ERejected]
   \<and> approveExpense 9 102 12 None s2_rejected
       = (Inl (InvalidApprovalStatus Rejected), s2_rejected)
   \<and> rejectExpense 9 102 12 (Some (utf16 ''again'')) s2_rejected
       = (Inl (InvalidApprovalStatus Rejected), s2_rejected)"
  by code_simp

text \<open>
  C5, amended: for a decide attempt by the assigned approver that is an approve, or a
  reject whose comment is present and not blank, a slot that is no longer pending gives
  "Invalid approval status" (carrying the slot's status), a pending slot of an expense
  that is no longer pending gives "Invalid expense status", and in both cases the database
  is unchanged. A reject without a comment, or with a blank one (nothing but white space
  and line terminators), fails with "Comments are required" whatever the slot's state, and
  changes nothing either.
\<close>

theorem decided_or_terminated:
  assumes "approvalResult d i = (a, e) # rest" and "a_approver_id a = userId"
  shows "(a_status a \<noteq> Pending \<longrightarrow>
            approveExpense now userId i c d = (Inl (InvalidApprovalStatus (a_status a)), d))
       \<and> (a_status a = Pending \<and> e_status e \<noteq> EPending \<longrightarrow>
            approveExpense now userId i c d = (Inl (InvalidExpenseStatus (e_status e)), d))
       \<and> (\<not> comments_missing c \<and> a_status a \<noteq> Pending \<longrightarrow>
            rejectExpense now userId i c d = (Inl (InvalidApprovalStatus (a_status a)), d))
       \<and> (\<not> comments_missing c \<and> a_status a = Pending \<and> e_status e \<noteq> EPending \<longrightarrow>
            rejectExpense now userId i c d = (Inl (InvalidExpenseStatus (e_status e)), d))
       \<and> (comments_missing c \<longrightarrow> rejectExpense now userId i c d = (Inl CommentsRequired, d))"
  using assms by (simp add: approveExpense_def rejectExpense_def)

text \<open>
  Re-posting the manager's approve on slot 1, and a commented reject of it, on \<open>s2_db\<close>;
  an approve and a commented reject of the pending slot 4 of \<open>terminated_db\<close>, whose
  expense is approved; and rejects of slot 1 whose comments are one space, one no-break
  space (U+00A0), and a line separator (U+2028) between a byte order mark (U+FEFF) and an
  ideographic space (U+3000).
\<close>

theorem decided_or_terminated_witness:
  "approveExpense 9 101 11 (Some (utf16 ''ok'')) s2_db
     = (Inl (InvalidApprovalStatus Approved), s2_db)
   \<and> rejectExpense 9 101 11 (Some (utf16 ''no'')) s2_db
     = (Inl (InvalidApprovalStatus Approved), s2_db)
   \<and> approveExpense 9 104 14 (Some (utf16 ''ok'')) terminated_db
     = (Inl (InvalidExpenseStatus EApproved), terminated_db)
   \<and> rejectExpense 9 104 14 (Some (utf16 ''no'')) terminated_db
     = (Inl (InvalidExpenseStatus EApproved), terminated_db)
   \<and> rejectExpense 9 101 11 (Some (utf16 '' '')) s2_db = (Inl CommentsRequired, s2_db)
   \<and> rejectExpense 9 101 11 (Some [0x00A0]) s2_db = (Inl CommentsRequired, s2_db)
   \<and> rejectExpense 9 101 11 (Some [0xFEFF, 0x2028, 0x3000]) s2_db = (Inl CommentsRequired, s2_db)"
proof -
  let ?r1 = "hd (approvalResult s2_db 11)"
  let ?r4 = "hd (approvalResult terminated_db 14)"
  have r1: "approvalResult s2_db 11 = (fst ?r1, snd ?r1) # []"
    by code_simp
  have a1: "a_approver_id (fst ?r1) = 101" "a_status (fst ?r1) = Approved"
    by code_simp+
  have r4: "approvalResult terminated_db 14 = (fst ?r4, snd ?r4) # []"
    by code_simp
  have a4: "a_approver_id (fst ?r4) = 104" "a_status (fst ?r4) = Pending"
    "e_status (snd ?r4) = EApproved"
    by code_simp+
  have c1: "\<not> comments_missing (Some (utf16 ''ok''))" "\<not> comments_missing (Some (utf16 ''no''))"
    by code_simp+
  have c2: "comments_missing (Some (utf16 '' ''))" "comments_missing (Some [0x00A0])"
    "comments_missing (Some [0xFEFF, 0x2028, 0x3000])"
    by code_simp+
  show ?thesis
    using decided_or_terminated[OF r1 a1(1), of 9 "Some (utf16 ''ok'')"]
      decided_or_terminated[OF r1 a1(1), of 9 "Some (utf16 ''no'')"]
      decided_or_terminated[OF r1 a1(1), of 9 "Some (utf16 '' '')"]
      decided_or_terminated[OF r1 a1(1), of 9 "Some [0x00A0]"]
      decided_or_terminated[OF r1 a1(1), of 9 "Some [0xFEFF, 0x2028, 0x3000]"]
      decided_or_terminated[OF r4 a4(1), of 9 "Some (utf16 ''ok'')"]
      decided_or_terminated[OF r4 a4(1), of 9 "Some (utf16 ''no'')"]
      a1 a4 c1 c2
    by simp
qed

subsection \<open>Cascade rejection\<close>

text \<open>
  C3, as stated, fails on a comment that is not empty but blank: \<open>rejectExpense\<close> trims
  the comment before it tests its length. Finance (102) rejects the pending slot 2 of the
  pending expense with a comment of one space, and with a comment of one no-break space
  (U+00A0), and nothing is rejected. It also fails on a comment that the database cannot
  store: a comment with the character U+0000 makes the \<open>UPDATE\<close> raise, and the handler
  rolls back.
\<close>

theorem reject_blank_comment_refused:
  "map a_status (approvals s2_db) = [Approved, Pending, Pending]
   \<and> map a_approver_id (approvals s2_db) = [101, 102, 103]
   \<and> map e_status (expenses s2_db) = [EPending]
   \<and> utf16 '' '' \<noteq> []
   \<and> rejectExpense 9 102 12 (Some (utf16 '' '')) s2_db = (Inl CommentsRequired, s2_db)
   \<and> rejectExpense 9 102 12 (Some [0x00A0]) s2_db = (Inl CommentsRequired, s2_db)
   \<and> rejectExpense 9 102 12 (Some [0x0041, 0x0000]) s2_db = (Inl InternalError, s2_db)"
  by code_simp

text \<open>
  C3, amended: for every reject decision by the assigned approver on a pending slot of a
  pending expense, with a comment that is not blank (white space and line terminators
  only count as empty) and holds no character U+0000, the database the operation commits
  is the old one where the rows with the decided id become rejected with the actor's
  comment (as the database stores it) and the decision time, every other slot of the
  expense that was pending becomes rejected with the comment "Rejected due to prior
  rejection in approval chain", every other row (the approved slots among them) is
  unchanged, and the expense becomes rejected.
\<close>

theorem reject_cascade:
  assumes "approvalResult d i = (a, e) # rest"
    and "a_approver_id a = userId" and "a_status a = Pending" and "e_status e = EPending"
    and "trim c \<noteq> []" and "0 \<notin> set c"
  shows "snd (rejectExpense now userId i (Some c) d) =
      d\<lparr>approvals :=
           map (\<lambda>s. if a_id s = i
                     then s\<lparr>a_status := Rejected, a_comments := Some (utf8_round_trip c),
                            a_approved_at := Some now\<rparr>
                     else if a_expense_id s = a_expense_id a \<and> a_status s = Pending
                     then s\<lparr>a_status := Rejected,
                            a_comments :=
                              Some (utf16 ''Rejected due to prior rejection in approval chain''),
                            a_approved_at := Some now\<rparr>
                     else s) (approvals d),
         expenses :=
           map (\<lambda>x. if e_id x = a_expense_id a
                     then x\<lparr>e_status := ERejected, e_updated_at := now\<rparr> else x) (expenses d)\<rparr>"
proof -
  have eid: "e_id e = a_expense_id a"
    using approvalResult_expense[OF assms(1)] by simp
  have nm: "\<not> comments_missing (Some c)"
    using assms(5) by (auto simp: comments_missing_def trim_def)
  have st: "nullable text_column (Some c) = Some (Some (utf8_round_trip c))"
    using assms(6) by (simp add: nullable_def text_column_def)
  show ?thesis
    using assms(1-4) nm eid st
    by (simp add: rejectExpense_def Let_def update_approval_def update_expense_status_def
          reject_others_def cascade_comment_def comp_def cong: if_cong)
qed

text \<open>
  Scenario S2: after the manager's approval, finance rejects with "missing receipt". The
  manager's slot keeps its approval and its comment.
\<close>

lemma s2_cascade:
  "(case fst (rejectExpense 2 102 12 (Some (utf16 ''missing receipt'')) s2_db) of
      Inl err \<Rightarrow> None | Inr b \<Rightarrow> Some (rb_expense_status b)) = Some ERejected
   \<and> map a_status (approvals s2_rejected) = [Approved, Rejected, Rejected]
   \<and> map a_comments (approvals s2_rejected) =
       [Some (utf16 ''ok''), Some (utf16 ''missing receipt''),
        Some (utf16 ''Rejected due to prior rejection in approval chain'')]
   \<and> map a_approved_at (approvals s2_rejected) = [Some 1, Some 2, Some 2]
   \<and> map e_status (expenses s2_rejected) = [ERejected]"
  by code_simp

theorem reject_cascade_witness:
  "trim (utf16 ''missing receipt'') \<noteq> [] \<and> 0 \<notin> set (utf16 ''missing receipt'')
   \<and> utf8_round_trip (utf16 ''missing receipt'') = utf16 ''missing receipt''
   \<and> snd (rejectExpense 2 102 12 (Some (utf16 ''missing receipt'')) s2_db) =
        s2_db\<lparr>approvals :=
           map (\<lambda>s. if a_id s = 12
                     then s\<lparr>a_status := Rejected,
                            a_comments := Some (utf8_round_trip (utf16 ''missing receipt'')),
                            a_approved_at := Some 2\<rparr>
                     else if a_expense_id s = 1 \<and> a_status s = Pending
                     then s\<lparr>a_status := Rejected,
                            a_comments :=
                              Some (utf16 ''Rejected due to prior rejection in approval chain''),
                            a_approved_at := Some 2\<rparr>
                     else s) (approvals s2_db),
         expenses :=
           map (\<lambda>x. if e_id x = 1
                     then x\<lparr>e_status := ERejected, e_updated_at := 2\<rparr> else x)
               (expenses s2_db)\<rparr>"
proof -
  let ?r = "hd (approvalResult s2_db 12)"
  have r: "approvalResult s2_db 12 = (fst ?r, snd ?r) # []"
    by code_simp
  have a: "a_approver_id (fst ?r) = 102" "a_status (fst ?r) = Pending"
    "e_status (snd ?r) = EPending" "a_expense_id (fst ?r) = 1"
    by code_simp+
  have t: "trim (utf16 ''missing receipt'') \<noteq> []"
    by code_simp
  have z: "0 \<notin> set (utf16 ''missing receipt'')"
    by code_simp
  have w: "utf8_round_trip (utf16 ''missing receipt'') = utf16 ''missing receipt''"
    by code_simp
  show ?thesis
    using reject_cascade[OF r a(1) a(2) a(3) t z, of 2] unfolding a(4)
    by (intro conjI t z w)
qed

section \<open>Properties of the currency converter\<close>

text \<open>
  \<open>parseFloat(x.toFixed(2))\<close> of a finite number below \<open>10^21\<close> is the double nearest
  to \<open>n / 100\<close> for an integer \<open>n\<close> nearest to \<open>100 x\<close>.
\<close>

lemma toFixed2_nearest:
  assumes "\<bar>v\<bar> < 10 ^ 21"
  shows "\<exists>n::int. \<bar>v * 100 - of_int n\<bar> \<le> 1 / 2 \<and> toFixed2 (Fin v) = to_double (of_int n / 100)"
proof -
  define m :: int where "m = \<lfloor>\<bar>v\<bar> * 100 + 1 / 2\<rfloor>"
  define n :: int where "n = (if v < 0 then - m else m)"
  have lo: "of_int m \<le> \<bar>v\<bar> * 100 + 1 / 2" and hi: "\<bar>v\<bar> * 100 + 1 / 2 < of_int m + 1"
    unfolding m_def by linarith+
  have near: "\<bar>v * 100 - of_int n\<bar> \<le> 1 / 2"
    using lo hi unfolding n_def by (cases "v < 0") (auto simp: abs_if)
  have m0: "v = 0 \<Longrightarrow> m = 0"
    unfolding m_def by (simp add: floor_eq_iff)
  have val: "sgn v * (of_int m / 100) = of_int n / 100"
    using m0 unfolding n_def by (cases "v < 0"; cases "v = 0") (auto simp: sgn_if)
  have "toFixed2 (Fin v) = to_double (of_int n / 100)"
    using assms val by (simp add: toFixed2_def m_def)
  then show ?thesis using near by blast
qed


text \<open>
  The doubles of the scenarios: 0.01, 0.02, 1.005, 1.239, 1.24, 28.33, 33.33 and 275.55
  are no binary fractions, and the double written 1.005 lies below 1.005.
\<close>

lemma scenario_doubles:
  "to_double (1 / 100) = Fin (5764607523034235 / 576460752303423488)"
  "to_double (1 / 50) = Fin (5764607523034235 / 288230376151711744)"
  "to_double (201 / 200) = Fin (1131529406376837 / 1125899906842624)"
  "to_double (1239 / 1000) = Fin (5579959938312045 / 4503599627370496)"
  "to_double (31 / 25) = Fin (5584463537939415 / 4503599627370496)"
  "to_double (2833 / 100) = Fin (1993546522553221 / 70368744177664)"
  "to_double (3333 / 100) = Fin (2345390243441541 / 70368744177664)"
  "to_double (5511 / 20) = Fin (4847526864538829 / 17592186044416)"
  by code_simp+

text \<open>
  C10. With equal codes, compared as they are passed, \<open>convertCurrency\<close> returns the
  amount rounded to two decimals (for a finite amount below \<open>10^21\<close>: the double nearest
  to \<open>n / 100\<close>, where the integer \<open>n\<close> is nearest to 100 times the amount), leaves the
  cache as it is and makes no cache or service access; the amount is not validated on this
  path (an amount of -5 comes back as -5); and the \<open>try\<close> block throws "Invalid amount
  for conversion" only when the codes differ. (The \<open>catch\<close> block then turns that throw
  into a stale-cache result or into "service unavailable".)
\<close>

theorem same_currency_skips_validation:
  "convertCurrency now ev amount c c cache = (Inr (toFixed2 amount), cache, [])
   \<and> (\<forall>v. amount = Fin v \<and> \<bar>v\<bar> < 10 ^ 21 \<longrightarrow>
         (\<exists>n::int. \<bar>v * 100 - of_int n\<bar> \<le> 1 / 2
            \<and> convertCurrency now ev amount c c cache
                = (Inr (to_double (of_int n / 100)), cache, [])))
   \<and> convertCurrency now ev (Fin (- 5)) c c cache = (Inr (Fin (- 5)), cache, [])
   \<and> (fst (convertCurrency_try now ev amount fromCurrency toCurrency cache)
        = Inl (InvalidAmountForConversion, f, t) \<longrightarrow> fromCurrency \<noteq> toCurrency)"
proof -
  have same: "\<And>a. convertCurrency now ev a c c cache = (Inr (toFixed2 a), cache, [])"
    by (simp add: convertCurrency_def convertCurrency_try_def)
  have five: "toFixed2 (Fin (- 5)) = Fin (- 5)"
    by code_simp
  have near: "\<forall>v. amount = Fin v \<and> \<bar>v\<bar> < 10 ^ 21 \<longrightarrow>
         (\<exists>n::int. \<bar>v * 100 - of_int n\<bar> \<le> 1 / 2
            \<and> convertCurrency now ev amount c c cache
                = (Inr (to_double (of_int n / 100)), cache, []))"
    using toFixed2_nearest same by fastforce
  have thr: "fst (convertCurrency_try now ev amount fromCurrency toCurrency cache)
        = Inl (InvalidAmountForConversion, f, t) \<longrightarrow> fromCurrency \<noteq> toCurrency"
    by (auto simp: convertCurrency_try_def)
  show ?thesis
    using same[of amount] same[of "Fin (- 5)"] five near thr by simp
qed

text \<open>
  Equal codes with the amounts -5, 1.005 (returned as 1, since the double lies below
  1.005), 1.239 (returned as 1.24) and -0.125 (a tie, returned as -0.13); and the codes
  \<open>usd\<close> and \<open>USD\<close>, which differ, with the amount -5.
\<close>

theorem same_currency_skips_validation_witness:
  "fst (convertCurrency_try 0 timeout_env (Fin (- 5)) (utf16 ''usd'') (utf16 ''USD'') Map.empty)
     = Inl (InvalidAmountForConversion, utf16 ''usd'', utf16 ''USD'')
   \<and> utf16 ''usd'' \<noteq> utf16 ''USD''
   \<and> convertCurrency 0 timeout_env (Fin (- 5)) (utf16 ''USD'') (utf16 ''USD'') Map.empty
       = (Inr (Fin (- 5)), Map.empty, [])
   \<and> convertCurrency 0 timeout_env (Fin (1131529406376837 / 1125899906842624))
        (utf16 ''USD'') (utf16 ''USD'') Map.empty
       = (Inr (Fin 1), Map.empty, [])
   \<and> (\<exists>n::int. \<bar>1131529406376837 / 1125899906842624 * 100 - of_int n\<bar> \<le> (1 / 2 :: rat)
        \<and> convertCurrency 0 timeout_env (Fin (1131529406376837 / 1125899906842624))
             (utf16 ''USD'') (utf16 ''USD'') Map.empty
            = (Inr (to_double (of_int n / 100)), Map.empty, []))
   \<and> convertCurrency 0 timeout_env (Fin (5579959938312045 / 4503599627370496))
        (utf16 ''USD'') (utf16 ''USD'') Map.empty
       = (Inr (Fin (5584463537939415 / 4503599627370496)), Map.empty, [])
   \<and> convertCurrency 0 timeout_env (Fin (- (1 / 8))) (utf16 ''USD'') (utf16 ''USD'') Map.empty
       = (Inr (to_double (- (13 / 100))), Map.empty, [])"
proof -
  have h: "fst (convertCurrency_try 0 timeout_env (Fin (- 5)) (utf16 ''usd'') (utf16 ''USD'')
                  Map.empty)
     = Inl (InvalidAmountForConversion, utf16 ''usd'', utf16 ''USD'')"
    by (simp add: convertCurrency_try_def utf16_def falsy_number_def)
  have r: "toFixed2 (Fin (1131529406376837 / 1125899906842624)) = Fin 1"
    "toFixed2 (Fin (5579959938312045 / 4503599627370496))
       = Fin (5584463537939415 / 4503599627370496)"
    "toFixed2 (Fin (- (1 / 8))) = to_double (- (13 / 100))"
    by code_simp+
  have b: "\<bar>1131529406376837 / 1125899906842624\<bar> < (10 ^ 21 :: rat)"
    by simp
  note T = same_currency_skips_validation[of 0 timeout_env _ "utf16 ''USD''" Map.empty]
  note T5 = T[of "Fin (- 5)" "utf16 ''usd''" "utf16 ''USD''" "utf16 ''usd''" "utf16 ''USD''"]
  note T1 = T[of "Fin (1131529406376837 / 1125899906842624)" "[]" "[]" "[]" "[]"]
  note T2 = T[of "Fin (5579959938312045 / 4503599627370496)" "[]" "[]" "[]" "[]"]
  note T8 = T[of "Fin (- (1 / 8))" "[]" "[]" "[]" "[]"]
  have ne: "utf16 ''usd'' \<noteq> utf16 ''USD''"
    using T5 h by blast
  have c5: "convertCurrency 0 timeout_env (Fin (- 5)) (utf16 ''USD'') (utf16 ''USD'') Map.empty
       = (Inr (Fin (- 5)), Map.empty, [])"
    using T5 by blast
  have c1: "convertCurrency 0 timeout_env (Fin (1131529406376837 / 1125899906842624))
        (utf16 ''USD'') (utf16 ''USD'') Map.empty
       = (Inr (Fin 1), Map.empty, [])"
    using T1 r(1) by simp
  have e1: "\<exists>n::int. \<bar>1131529406376837 / 1125899906842624 * 100 - of_int n\<bar> \<le> (1 / 2 :: rat)
        \<and> convertCurrency 0 timeout_env (Fin (1131529406376837 / 1125899906842624))
             (utf16 ''USD'') (utf16 ''USD'') Map.empty
            = (Inr (to_double (of_int n / 100)), Map.empty, [])"
    using T1 b by blast
  have c2: "convertCurrency 0 timeout_env (Fin (5579959938312045 / 4503599627370496))
        (utf16 ''USD'') (utf16 ''USD'') Map.empty
       = (Inr (Fin (5584463537939415 / 4503599627370496)), Map.empty, [])"
    using T2 r(2) by simp
  have c8: "convertCurrency 0 timeout_env (Fin (- (1 / 8))) (utf16 ''USD'') (utf16 ''USD'') Map.empty
       = (Inr (to_double (- (13 / 100))), Map.empty, [])"
    using T8 r(3) by simp
  show ?thesis
    by (intro conjI h ne c5 c1 e1 c2 c8)
qed



section \<open>Properties of the chain builder\<close>

lemma map_upt_shift:
  "map (\<lambda>k. f (Suc k)) [0..<n] = map f [1..<Suc n]"
  by (induction n) auto

lemma additional_loop_spec:
  "\<exists>news ents.
     additional_loop now eid mgr rows (d, chain, sq) =
       (d\<lparr>approvals := approvals d @ news, next_id := next_id d + length news\<rparr>,
        chain @ ents, sq + int (length news))
     \<and> map ch_approval ents = news
     \<and> map a_approver_id news =
         map (\<lambda>row. ap_user_id (fst row))
             (filter (\<lambda>row. Some (ap_user_id (fst row)) \<noteq> mgr) rows)
     \<and> map a_sequence news = map (\<lambda>k. sq + int k) [0..<length news]
     \<and> list_all (\<lambda>s. a_status s = Pending \<and> a_expense_id s = eid) news"
proof (induction rows arbitrary: d chain sq)
  case Nil
  show ?case
    by (rule exI[of _ "[]"], rule exI[of _ "[]"]) simp
next
  case (Cons row rows)
  show ?case
  proof (cases "Some (ap_user_id (fst row)) = mgr")
    case True
    then show ?thesis using Cons.IH[of d chain sq] by simp
  next
    case False
    let ?ins = "fst (insert_approval now eid (ap_user_id (fst row)) sq d)"
    let ?d1 = "snd (insert_approval now eid (ap_user_id (fst row)) sq d)"
    let ?ent = "\<lparr>ch_approval = ?ins, ch_approver_name = u_name (snd row),
                  ch_approver_email = u_email (snd row), ch_approver_role = u_role (snd row)\<rparr>"
    obtain news ents where ih:
      "additional_loop now eid mgr rows (?d1, chain @ [?ent], sq + 1) =
         (?d1\<lparr>approvals := approvals ?d1 @ news, next_id := next_id ?d1 + length news\<rparr>,
          (chain @ [?ent]) @ ents, sq + 1 + int (length news))"
      "map ch_approval ents = news"
      "map a_approver_id news =
         map (\<lambda>row. ap_user_id (fst row))
             (filter (\<lambda>row. Some (ap_user_id (fst row)) \<noteq> mgr) rows)"
      "map a_sequence news = map (\<lambda>k. sq + 1 + int k) [0..<length news]"
      "list_all (\<lambda>s. a_status s = Pending \<and> a_expense_id s = eid) news"
      using Cons.IH[of ?d1 "chain @ [?ent]" "sq + 1"] by blast
    have seqs: "map (\<lambda>k. sq + int k) [0..<length (?ins # news)] =
                sq # map (\<lambda>k. sq + 1 + int k) [0..<length news]"
    proof -
      have "map (\<lambda>k. sq + int k) [0..<Suc (length news)] =
            (sq + int 0) # map (\<lambda>k. sq + int k) [1..<Suc (length news)]"
        by (simp add: upt_conv_Cons del: upt_Suc)
      also have "map (\<lambda>k. sq + int k) [1..<Suc (length news)] =
                 map (\<lambda>k. sq + int (Suc k)) [0..<length news]"
        using map_upt_shift[of "\<lambda>k. sq + int k" "length news"] by simp
      finally show ?thesis by (simp add: add.assoc add.commute)
    qed
    show ?thesis
    proof (rule exI[of _ "?ins # news"], rule exI[of _ "?ent # ents"], intro conjI)
      show "additional_loop now eid mgr (row # rows) (d, chain, sq) =
          (d\<lparr>approvals := approvals d @ ?ins # news,
             next_id := next_id d + length (?ins # news)\<rparr>,
           chain @ ?ent # ents, sq + int (length (?ins # news)))"
        using False ih(1) by (simp add: insert_approval_def Let_def)
      show "map ch_approval (?ent # ents) = ?ins # news"
        using ih(2) by simp
      show "map a_approver_id (?ins # news) =
          map (\<lambda>row. ap_user_id (fst row))
              (filter (\<lambda>row. Some (ap_user_id (fst row)) \<noteq> mgr) (row # rows))"
        using False ih(3) by (simp add: insert_approval_def Let_def)
      show "map a_sequence (?ins # news) = map (\<lambda>k. sq + int k) [0..<length (?ins # news)]"
        unfolding seqs using ih(4) by (simp add: insert_approval_def Let_def)
      show "list_all (\<lambda>s. a_status s = Pending \<and> a_expense_id s = eid) (?ins # news)"
        using ih(5) by (simp add: insert_approval_def Let_def)
    qed
  qed
qed

lemma additionalApprovers_cong:
  "approvers d1 = approvers d \<Longrightarrow> users d1 = users d \<Longrightarrow>
   additionalApprovers d1 c = additionalApprovers d c"
  by (simp add: additionalApprovers_def)

lemma managerId_of_cong:
  "users d1 = users d \<Longrightarrow> managerId_of d1 u = managerId_of d u"
  by (simp add: managerId_of_def)

lemma upto_from_nat: "map (\<lambda>k. 1 + int k) [0..<n] = [1..int n]"
proof (induction n)
  case 0
  show ?case by simp
next
  case (Suc n)
  have "[1..int (Suc n)] = [1..int n] @ [int n + 1]"
    using upto_rec2[of 1 "int n + 1"] by (simp add: add.commute)
  then show ?case using Suc by (simp add: add.commute)
qed

text \<open>
  What \<open>build_chain\<close> appends to \<open>approvals\<close>, for any database whose \<open>approvers\<close> and
  \<open>users\<close> tables are those of \<open>d\<close>.
\<close>

lemma build_chain_spec:
  assumes "build_chain now usr eid d1 = Some (d3, chain)"
  shows "approvals d3 = approvals d1 @ map ch_approval chain
       \<and> expenses d3 = expenses d1 \<and> users d3 = users d1
       \<and> map a_approver_id (map ch_approval chain) =
           (case managerId_of d1 (p_id usr) of None \<Rightarrow> [] | Some m \<Rightarrow> [m])
           @ map (\<lambda>row. ap_user_id (fst row))
                 (filter (\<lambda>row. Some (ap_user_id (fst row)) \<noteq> managerId_of d1 (p_id usr))
                         (additionalApprovers d1 (p_company_id usr)))
       \<and> map a_sequence (map ch_approval chain) = [1..int (length chain)]
       \<and> list_all (\<lambda>s. a_status s = Pending \<and> a_expense_id s = eid) (map ch_approval chain)"
proof (cases "managerId_of d1 (p_id usr)")
  case None
  obtain news ents where sp:
    "additional_loop now eid None (additionalApprovers d1 (p_company_id usr)) (d1, [], 1) =
       (d1\<lparr>approvals := approvals d1 @ news, next_id := next_id d1 + length news\<rparr>,
        [] @ ents, 1 + int (length news))"
    "map ch_approval ents = news"
    "map a_approver_id news =
       map (\<lambda>row. ap_user_id (fst row))
           (filter (\<lambda>row. Some (ap_user_id (fst row)) \<noteq> None)
                   (additionalApprovers d1 (p_company_id usr)))"
    "map a_sequence news = map (\<lambda>k. 1 + int k) [0..<length news]"
    "list_all (\<lambda>s. a_status s = Pending \<and> a_expense_id s = eid) news"
    using additional_loop_spec[of now eid None "additionalApprovers d1 (p_company_id usr)" d1 "[]" 1]
    by blast
  have res: "d3 = d1\<lparr>approvals := approvals d1 @ news, next_id := next_id d1 + length news\<rparr>"
    "chain = ents"
    using assms None sp(1) by (simp_all add: build_chain_def manager_step_def Let_def)
  have len: "length news = length chain"
    using sp(2) res(2) by (metis length_map)
  show ?thesis
    using None res sp(2-5) len by (simp add: upto_from_nat)
next
  case (Some m)
  let ?ins = "fst (insert_approval now eid m 1 d1)"
  let ?d2 = "snd (insert_approval now eid m 1 d1)"
  have d2: "approvals ?d2 = approvals d1 @ [?ins]" "expenses ?d2 = expenses d1"
    "users ?d2 = users d1" "approvers ?d2 = approvers d1"
    "a_approver_id ?ins = m" "a_sequence ?ins = 1" "a_status ?ins = Pending"
    "a_expense_id ?ins = eid"
    by (simp_all add: insert_approval_def Let_def)
  obtain mu mus where mu: "filter (\<lambda>u. u_id u = m) (users ?d2) = mu # mus"
    using assms Some
    by (cases "filter (\<lambda>u. u_id u = m) (users ?d2)")
       (auto simp: build_chain_def manager_step_def Let_def split_beta)
  let ?ent = "\<lparr>ch_approval = ?ins, ch_approver_name = u_name mu,
                ch_approver_email = u_email mu, ch_approver_role = u_role mu\<rparr>"
  have step: "manager_step now eid (Some m) d1 = Some (?d2, [?ent], 2)"
    using mu by (simp add: manager_step_def split_beta)
  have same: "additionalApprovers ?d2 (p_company_id usr) = additionalApprovers d1 (p_company_id usr)"
    by (rule additionalApprovers_cong[OF d2(4) d2(3)])
  obtain news ents where sp:
    "additional_loop now eid (Some m) (additionalApprovers d1 (p_company_id usr)) (?d2, [?ent], 2) =
       (?d2\<lparr>approvals := approvals ?d2 @ news, next_id := next_id ?d2 + length news\<rparr>,
        [?ent] @ ents, 2 + int (length news))"
    "map ch_approval ents = news"
    "map a_approver_id news =
       map (\<lambda>row. ap_user_id (fst row))
           (filter (\<lambda>row. Some (ap_user_id (fst row)) \<noteq> Some m)
                   (additionalApprovers d1 (p_company_id usr)))"
    "map a_sequence news = map (\<lambda>k. 2 + int k) [0..<length news]"
    "list_all (\<lambda>s. a_status s = Pending \<and> a_expense_id s = eid) news"
    using additional_loop_spec[of now eid "Some m" "additionalApprovers d1 (p_company_id usr)"
        ?d2 "[?ent]" 2]
    by blast
  have res: "d3 = ?d2\<lparr>approvals := approvals ?d2 @ news, next_id := next_id ?d2 + length news\<rparr>"
    "chain = ?ent # ents"
    using assms Some step same sp(1) by (simp_all add: build_chain_def Let_def)
  have len: "length chain = Suc (length news)"
    using sp(2) res(2) by (metis length_Cons length_map)
  have "map (\<lambda>k. 1 + int k) [0..<Suc (length news)] =
        1 # map (\<lambda>k. 2 + int k) [0..<length news]"
  proof -
    have "map (\<lambda>k. 1 + int k) [0..<Suc (length news)] =
          (1 + int 0) # map (\<lambda>k. 1 + int k) [1..<Suc (length news)]"
      by (simp add: upt_conv_Cons del: upt_Suc)
    also have "map (\<lambda>k. 1 + int k) [1..<Suc (length news)] =
               map (\<lambda>k. 1 + int (Suc k)) [0..<length news]"
      using map_upt_shift[of "\<lambda>k. 1 + int k" "length news"] by simp
    finally show ?thesis by simp
  qed
  then have seqs: "[1..int (length chain)] = 1 # map (\<lambda>k. 2 + int k) [0..<length news]"
    using upto_from_nat[of "Suc (length news)"] len by simp
  show ?thesis
    unfolding seqs using Some res d2 sp(2-5) by simp
qed

lemma submit_after_insert_InrD:
  assumes "submit_after_insert now usr co expense0 d cache1 d1 = (Inr body, d', cache')"
  shows "\<exists>d3. build_chain now usr (e_id expense0) d1 = Some (d3, sb_approval_chain body)
         \<and> sb_next_approver body = first_row (sb_approval_chain body)
         \<and> (if sb_approval_chain body = [] \<and> p_role usr = ''admin''
            then d' = update_expense_status now (e_id expense0) EApproved d3
                 \<and> sb_expense body = expense0\<lparr>e_status := EApproved\<rparr>
            else d' = d3 \<and> sb_expense body = expense0)"
proof (cases "build_chain now usr (e_id expense0) d1")
  case None
  then show ?thesis using assms by (simp add: submit_after_insert_def)
next
  case (Some r)
  obtain d3 chain where r: "r = (d3, chain)" by (cases r)
  show ?thesis
    using assms unfolding submit_after_insert_def Some r
    by (auto simp: Let_def split: list.splits if_splits)
qed

lemma submitExpense_InrD:
  assumes "submitExpense now ev usr req d cache = (Inr body, d', cache')"
  shows "\<exists>expense0 d1 d3.
           e_id expense0 = next_id d \<and> e_status expense0 = EPending
         \<and> e_updated_at expense0 = now
         \<and> expenses d1 = expenses d @ [expense0] \<and> approvals d1 = approvals d
         \<and> users d1 = users d \<and> approvers d1 = approvers d
         \<and> build_chain now usr (next_id d) d1 = Some (d3, sb_approval_chain body)
         \<and> sb_next_approver body = first_row (sb_approval_chain body)
         \<and> (if sb_approval_chain body = [] \<and> p_role usr = ''admin''
            then d' = update_expense_status now (next_id d) EApproved d3
                 \<and> sb_expense body = expense0\<lparr>e_status := EApproved\<rparr>
            else d' = d3 \<and> sb_expense body = expense0)"
proof -
  obtain amt dt co where v: "validate_submission ev usr req d = Inr (amt, dt, co)"
    using assms
    by (cases "validate_submission ev usr req d") (auto simp: submitExpense_def)
  obtain conv cache1 tr where c:
    "convertCurrency now ev amt (env_toUpperCase ev (the (sr_currency req)))
       (env_toUpperCase ev (c_currency co)) cache = (Inr conv, cache1, tr)"
    using assms v
    by (cases "convertCurrency now ev amt (env_toUpperCase ev (the (sr_currency req)))
                 (env_toUpperCase ev (c_currency co)) cache")
       (auto simp: submitExpense_def split: sum.splits)
  let ?ins = "insert_expense now ev (p_id usr) (p_company_id usr) conv amt
                (env_toUpperCase ev (the (sr_currency req))) (the (sr_category req))
                (or_null (sr_description req))
                dt (map_option (\<lambda>f. utf16 ''/uploads/'' @ f) (sr_file req)) d"
  have S: "(case ?ins of
              None \<Rightarrow> (Inl InternalError, d, cache1)
            | Some (expense0, d1) \<Rightarrow> submit_after_insert now usr co expense0 d cache1 d1)
           = (Inr body, d', cache')"
    using assms
    by (simp only: submitExpense_def v c sum.case prod.case Let_def)
  obtain expense0 d1 where I: "?ins = Some (expense0, d1)"
    using S by (cases ?ins) auto
  have ins: "e_id expense0 = next_id d" "e_status expense0 = EPending"
    "e_updated_at expense0 = now"
    "expenses d1 = expenses d @ [expense0]" "approvals d1 = approvals d"
    "users d1 = users d" "approvers d1 = approvers d"
    using I
    by (auto simp: insert_expense_def Let_def split: Option.bind_splits if_splits)
  have E: "submit_after_insert now usr co expense0 d cache1 d1 = (Inr body, d', cache')"
    using S unfolding I by simp
  show ?thesis
    using submit_after_insert_InrD[OF E] ins by (metis (no_types, lifting))
qed

lemma additionalApprovers_sorted:
  "sorted (map (\<lambda>row. ap_sequence (fst row)) (additionalApprovers d c))"
  by (simp add: additionalApprovers_def)

lemma additionalApprovers_set:
  "set (map fst (additionalApprovers d c)) =
     {a \<in> set (approvers d). ap_company_id a = c \<and> ap_is_active a
        \<and> (\<exists>u \<in> set (users d). u_id u = ap_user_id a)}"
  by (force simp: additionalApprovers_def)

text \<open>
  The join of the roster with \<open>users\<close> under the schema's keys: \<open>users.id\<close> is the
  primary key and \<open>approvers.user_id\<close> references it, so every roster row has exactly
  one partner, and a user id names exactly one row.
\<close>

lemma filter_key_unique:
  "distinct (map f xs) \<Longrightarrow> x \<in> set xs \<Longrightarrow> filter (\<lambda>y. f y = f x) xs = [x]"
proof (induction xs)
  case Nil
  then show ?case by simp
next
  case (Cons y ys)
  have none: "\<forall>z \<in> set ys. f z \<noteq> f y"
    using Cons.prems(1) by (fastforce simp: image_iff)
  show ?case
  proof (cases "x = y")
    case True
    have "filter (\<lambda>z. f z = f y) ys = []"
      using none by (simp add: filter_empty_conv)
    then show ?thesis using True by simp
  next
    case False
    then have x: "x \<in> set ys" using Cons.prems(2) by simp
    have "f y \<noteq> f x" using none x by auto
    then show ?thesis using Cons.IH x Cons.prems(1) by simp
  qed
qed

lemma managerId_of_row:
  assumes "distinct (map u_id (users d))" and "su \<in> set (users d)" and "u_id su = uid"
  shows "managerId_of d uid = u_manager_id su"
  using filter_key_unique[OF assms(1,2)] assms(3) by (simp add: managerId_of_def)

lemma join_users:
  assumes "distinct (map u_id us)" and "\<forall>a \<in> set rows. \<exists>u \<in> set us. u_id u = ap_user_id a"
  shows "map fst (concat (map (\<lambda>a. map (\<lambda>u. (a, u)) (filter (\<lambda>u. u_id u = ap_user_id a) us)) rows))
           = rows"
  using assms(2)
proof (induction rows)
  case Nil
  show ?case by simp
next
  case (Cons a rows)
  obtain u where u: "u \<in> set us" "u_id u = ap_user_id a"
    using Cons.prems by auto
  have "filter (\<lambda>y. u_id y = ap_user_id a) us = [u]"
    using filter_key_unique[OF assms(1) u(1)] u(2) by simp
  then show ?case using Cons by simp
qed

lemma map_fst_insort_key:
  "map fst (insort_key (\<lambda>row. f (fst row)) y ys) = insort_key f (fst y) (map fst ys)"
  by (induction ys) auto

lemma map_fst_sort_key:
  "map fst (sort_key (\<lambda>row. f (fst row)) ys) = sort_key f (map fst ys)"
  by (induction ys) (simp_all add: map_fst_insort_key)

lemma additionalApprovers_rows:
  assumes "distinct (map u_id (users d))"
    and "\<forall>a \<in> set (approvers d). \<exists>u \<in> set (users d). u_id u = ap_user_id a"
  shows "map fst (additionalApprovers d c) =
           sort_key ap_sequence (filter (\<lambda>a. ap_company_id a = c \<and> ap_is_active a) (approvers d))"
proof -
  have "\<forall>a \<in> set (filter (\<lambda>a. ap_company_id a = c \<and> ap_is_active a) (approvers d)).
          \<exists>u \<in> set (users d). u_id u = ap_user_id a"
    using assms(2) by simp
  note j = join_users[OF assms(1) this]
  show ?thesis
    unfolding additionalApprovers_def map_fst_sort_key j ..
qed

lemma map_filter_fst:
  "map (\<lambda>row. f (fst row)) (filter (\<lambda>row. P (fst row)) xs) = map f (filter P (map fst xs))"
  by (induction xs) auto

text \<open>
  C6. For every submission that is answered with the created expense, in a database that
  satisfies the primary key of \<open>users\<close> and the foreign key of \<open>approvers.user_id\<close>, and
  with \<open>su\<close> the submitter's row: the slots inserted are exactly the response's chain,
  appended to \<open>approvals\<close>; their approvers are the manager named in the submitter's
  row, when there is one, followed by the users of an ascending arrangement \<open>rows\<close> of the
  company's active approver rows, the rows of the manager left out; their sequence values
  are 1, 2, ..., N in this order; and each is pending and belongs to the new expense.
\<close>

theorem submitted_chain:
  assumes "submitExpense now ev usr req d cache = (Inr body, d', cache')"
    and "distinct (map u_id (users d))"
    and "\<forall>a \<in> set (approvers d). \<exists>u \<in> set (users d). u_id u = ap_user_id a"
    and "su \<in> set (users d)" and "u_id su = p_id usr"
  shows "approvals d' = approvals d @ map ch_approval (sb_approval_chain body)
       \<and> (\<exists>rows.
            mset rows = mset (filter (\<lambda>a. ap_company_id a = p_company_id usr \<and> ap_is_active a)
                                     (approvers d))
            \<and> sorted (map ap_sequence rows)
            \<and> map a_approver_id (map ch_approval (sb_approval_chain body)) =
                (case u_manager_id su of None \<Rightarrow> [] | Some m \<Rightarrow> [m])
                @ map ap_user_id (filter (\<lambda>a. Some (ap_user_id a) \<noteq> u_manager_id su) rows))
       \<and> map a_sequence (map ch_approval (sb_approval_chain body)) =
           [1..int (length (sb_approval_chain body))]
       \<and> list_all (\<lambda>s. a_status s = Pending \<and> a_expense_id s = e_id (sb_expense body))
                  (map ch_approval (sb_approval_chain body))"
proof -
  obtain expense0 d1 d3 where D:
    "e_id expense0 = next_id d"
    "approvals d1 = approvals d" "users d1 = users d" "approvers d1 = approvers d"
    "build_chain now usr (next_id d) d1 = Some (d3, sb_approval_chain body)"
    "if sb_approval_chain body = [] \<and> p_role usr = ''admin''
     then d' = update_expense_status now (next_id d) EApproved d3
          \<and> sb_expense body = expense0\<lparr>e_status := EApproved\<rparr>
     else d' = d3 \<and> sb_expense body = expense0"
    using submitExpense_InrD[OF assms(1)] by blast
  note B = build_chain_spec[OF D(5)]
  let ?rows = "sort_key ap_sequence
                 (filter (\<lambda>a. ap_company_id a = p_company_id usr \<and> ap_is_active a) (approvers d))"
  have m: "managerId_of d1 (p_id usr) = u_manager_id su"
    using managerId_of_cong[OF D(3)] managerId_of_row[OF assms(2,4,5)] by simp
  have ad: "additionalApprovers d1 (p_company_id usr) = additionalApprovers d (p_company_id usr)"
    by (rule additionalApprovers_cong[OF D(4) D(3)])
  have rows: "map fst (additionalApprovers d (p_company_id usr)) = ?rows"
    by (rule additionalApprovers_rows[OF assms(2,3)])
  have ids: "map a_approver_id (map ch_approval (sb_approval_chain body)) =
      (case u_manager_id su of None \<Rightarrow> [] | Some m \<Rightarrow> [m])
      @ map ap_user_id (filter (\<lambda>a. Some (ap_user_id a) \<noteq> u_manager_id su) ?rows)"
    using B[THEN conjunct2, THEN conjunct2, THEN conjunct2, THEN conjunct1]
    unfolding m ad rows[symmetric]
      map_filter_fst[of ap_user_id "\<lambda>a. Some (ap_user_id a) \<noteq> u_manager_id su"
        "additionalApprovers d (p_company_id usr)", symmetric] .
  have ex: "\<exists>rows.
      mset rows = mset (filter (\<lambda>a. ap_company_id a = p_company_id usr \<and> ap_is_active a)
                               (approvers d))
      \<and> sorted (map ap_sequence rows)
      \<and> map a_approver_id (map ch_approval (sb_approval_chain body)) =
          (case u_manager_id su of None \<Rightarrow> [] | Some m \<Rightarrow> [m])
          @ map ap_user_id (filter (\<lambda>a. Some (ap_user_id a) \<noteq> u_manager_id su) rows)"
  proof (intro exI[of _ ?rows] conjI)
    show "mset ?rows = mset (filter (\<lambda>a. ap_company_id a = p_company_id usr \<and> ap_is_active a)
                                    (approvers d))"
      by simp
    show "sorted (map ap_sequence ?rows)"
      by simp
    show "map a_approver_id (map ch_approval (sb_approval_chain body)) =
          (case u_manager_id su of None \<Rightarrow> [] | Some m \<Rightarrow> [m])
          @ map ap_user_id (filter (\<lambda>a. Some (ap_user_id a) \<noteq> u_manager_id su) ?rows)"
      by (rule ids)
  qed
  have apps: "approvals d' = approvals d3"
    using D(6) by (auto simp: update_expense_status_def split: if_splits)
  have eid: "e_id (sb_expense body) = next_id d"
    using D(1,6) by (auto split: if_splits)
  show ?thesis
    using B ex apps eid D(2) by simp
qed

text \<open>
  Scenario S1 on a larger roster, whose active rows for company 7 are stored as CEO (103)
  at 3, manager (101) at 2 and finance (102) at 1: the chain of employee 100 is the manager
  101 at sequence 1, although the roster lists finance first, then finance 102 and the CEO
  103 at sequences 2 and 3; the manager's own roster row, the removed row and the other
  company's row add nothing.
\<close>

theorem submitted_chain_witness:
  "distinct (map u_id (users roster_db))
   \<and> mk_user 100 ''employee'' (Some 101) \<in> set (users roster_db)
   \<and> map (\<lambda>a. (ap_user_id a, ap_sequence a))
         (filter (\<lambda>a. ap_company_id a = 7 \<and> ap_is_active a) (approvers roster_db))
       = [(103, 3), (101, 2), (102, 1)]
   \<and> map a_approver_id (success_chain (fst roster_submission)) = [101, 102, 103]
   \<and> map a_sequence (success_chain (fst roster_submission)) = [1, 2, 3]
   \<and> approvals (fst (snd roster_submission)) = success_chain (fst roster_submission)
   \<and> (\<exists>rows.
        mset rows = mset (filter (\<lambda>a. ap_company_id a = 7 \<and> ap_is_active a) (approvers roster_db))
        \<and> sorted (map ap_sequence rows)
        \<and> map a_approver_id (success_chain (fst roster_submission)) =
            [101] @ map ap_user_id (filter (\<lambda>a. Some (ap_user_id a) \<noteq> Some 101) rows))"
proof -
  let ?b = "projr (fst roster_submission)"
  have ok: "fst roster_submission = Inr ?b"
    by code_simp
  have h: "submitExpense 5 timeout_env (principal_of 100 ''employee'') usd_request roster_db
             Map.empty = (Inr ?b, fst (snd roster_submission), snd (snd roster_submission))"
    using ok by (simp add: roster_submission_def prod_eq_iff)
  have sc: "success_chain (fst roster_submission) = map ch_approval (sb_approval_chain ?b)"
    using ok by (cases "fst roster_submission") (simp_all add: success_chain_def)
  have pk: "distinct (map u_id (users roster_db))"
    by code_simp
  have fk: "\<forall>a \<in> set (approvers roster_db). \<exists>u \<in> set (users roster_db). u_id u = ap_user_id a"
    by code_simp
  have su: "mk_user 100 ''employee'' (Some 101) \<in> set (users roster_db)"
    "u_id (mk_user 100 ''employee'' (Some 101)) = p_id (principal_of 100 ''employee'')"
    "u_manager_id (mk_user 100 ''employee'' (Some 101)) = Some 101"
    "p_company_id (principal_of 100 ''employee'') = 7"
    by code_simp+
  have ev: "map (\<lambda>a. (ap_user_id a, ap_sequence a))
         (filter (\<lambda>a. ap_company_id a = 7 \<and> ap_is_active a) (approvers roster_db))
       = [(103, 3), (101, 2), (102, 1)]"
    "map a_approver_id (success_chain (fst roster_submission)) = [101, 102, 103]"
    "length (sb_approval_chain ?b) = 3"
    "approvals roster_db = []"
    by code_simp+
  note T = submitted_chain[OF h pk fk su(1) su(2)]
  have sq: "map a_sequence (success_chain (fst roster_submission)) = [1, 2, 3]"
    using T sc ev(3) by (simp add: upto_rec1)
  have ap: "approvals (fst (snd roster_submission)) = success_chain (fst roster_submission)"
    using T sc ev(4) by simp
  have ex: "\<exists>rows.
        mset rows = mset (filter (\<lambda>a. ap_company_id a = 7 \<and> ap_is_active a) (approvers roster_db))
        \<and> sorted (map ap_sequence rows)
        \<and> map a_approver_id (success_chain (fst roster_submission)) =
            [101] @ map ap_user_id (filter (\<lambda>a. Some (ap_user_id a) \<noteq> Some 101) rows)"
    using T unfolding sc su(3) su(4) by simp
  show ?thesis
    by (intro conjI pk su(1) ev(1) ev(2) sq ap ex)
qed

subsection \<open>Submissions without approvers\<close>

text \<open>
  An empty chain is no failure: when the submitter has no manager, the company has no
  active approver row, and validation, conversion and the \<open>INSERT\<close> of the expense
  succeed, the submission is answered 201 with an empty chain, whatever the submitter's
  role.
\<close>

lemma empty_chain_submission_succeeds:
  assumes "validate_submission ev usr req d = Inr (amount, dt, co)"
    and "convertCurrency now ev amount (env_toUpperCase ev (the (sr_currency req)))
           (env_toUpperCase ev (c_currency co)) cache = (Inr conv, cache1, tr)"
    and "insert_expense now ev (p_id usr) (p_company_id usr) conv amount
           (env_toUpperCase ev (the (sr_currency req))) (the (sr_category req))
           (or_null (sr_description req)) dt
           (map_option (\<lambda>f. utf16 ''/uploads/'' @ f) (sr_file req)) d = Some (expense0, d1)"
    and "managerId_of d (p_id usr) = None"
    and "filter (\<lambda>a. ap_company_id a = p_company_id usr \<and> ap_is_active a) (approvers d) = []"
  shows "\<exists>body d'. submitExpense now ev usr req d cache = (Inr body, d', cache1)
           \<and> sb_approval_chain body = []"
proof -
  have ins: "users d1 = users d" "approvers d1 = approvers d"
    "filter (\<lambda>u. u_id u = p_id usr) (users d) \<noteq> []"
    using assms(3)
    by (auto simp: insert_expense_def Let_def split: Option.bind_splits if_splits)
  have m: "managerId_of d1 (p_id usr) = None"
    using managerId_of_cong[OF ins(1)] assms(4) by simp
  have ad: "additionalApprovers d1 (p_company_id usr) = []"
    using assms(5) by (simp add: additionalApprovers_def ins)
  have bc: "build_chain now usr (e_id expense0) d1 = Some (d1, [])"
    by (simp add: build_chain_def manager_step_def m ad)
  obtain su rest where su: "filter (\<lambda>u. u_id u = p_id usr) (users d) = su # rest"
    using ins(3) by (cases "filter (\<lambda>u. u_id u = p_id usr) (users d)") auto
  have "\<exists>body d'. submit_after_insert now usr co expense0 d cache1 d1 = (Inr body, d', cache1)
           \<and> sb_approval_chain body = []"
    using su by (simp add: submit_after_insert_def bc Let_def update_expense_status_def ins)
  then show ?thesis
    by (simp only: submitExpense_def assms(1,2,3) sum.case prod.case option.case Let_def)
qed

text \<open>
  C7, as stated, fails in its last part: the 201 response has no warning field. Employee
  104 has no manager and the company no approver rows; the expense is persisted as
  pending without slots, and the keys of the response are those of \<open>message\<close>,
  \<open>expense\<close>, \<open>approval_chain\<close> and \<open>next_approver\<close>.
\<close>

theorem no_warning_field:
  "success_keys (fst employee_submission) =
     [''message'', ''expense'', ''id'', ''amount'', ''original_amount'', ''original_currency'',
      ''company_currency'', ''category'', ''description'', ''date'', ''status'',
      ''receipt_url'', ''created_at'', ''submitter'', ''id'', ''name'', ''email'',
      ''approval_chain'', ''next_approver'']
   \<and> map e_status (expenses (fst (snd employee_submission))) = [EPending]
   \<and> approvals (fst (snd employee_submission)) = []"
  by code_simp

lemma expense_status_update_idem:
  "e_updated_at x = now \<Longrightarrow> x\<lparr>e_status := st, e_updated_at := now\<rparr> = x\<lparr>e_status := st\<rparr>"
  by (cases x) simp

text \<open>
  C7, amended: for every submission answered with the created expense whose assembled
  approver list is empty, the expense row of the response is persisted and no slot is
  inserted; its status is approved when the submitter's role is admin and pending
  otherwise; and the response names no next approver and has no warning field (in either
  case the configuration error is not reported).
\<close>

theorem empty_chain_submission:
  assumes "submitExpense now ev usr req d cache = (Inr body, d', cache')"
    and "sb_approval_chain body = []"
  shows "sb_expense body \<in> set (expenses d')
       \<and> e_id (sb_expense body) = next_id d
       \<and> approvals d' = approvals d
       \<and> e_status (sb_expense body) = (if p_role usr = ''admin'' then EApproved else EPending)
       \<and> sb_next_approver body = None
       \<and> ''warning'' \<notin> set (json_keys (submit_json body))"
proof -
  obtain expense0 d1 d3 where D:
    "e_id expense0 = next_id d" "e_status expense0 = EPending" "e_updated_at expense0 = now"
    "expenses d1 = expenses d @ [expense0]" "approvals d1 = approvals d"
    "build_chain now usr (next_id d) d1 = Some (d3, sb_approval_chain body)"
    "sb_next_approver body = first_row (sb_approval_chain body)"
    "if sb_approval_chain body = [] \<and> p_role usr = ''admin''
     then d' = update_expense_status now (next_id d) EApproved d3
          \<and> sb_expense body = expense0\<lparr>e_status := EApproved\<rparr>
     else d' = d3 \<and> sb_expense body = expense0"
    using submitExpense_InrD[OF assms(1)] by blast
  have B: "approvals d3 = approvals d1" "expenses d3 = expenses d1"
    using build_chain_spec[OF D(6)] assms(2) by simp_all
  have nxt: "sb_next_approver body = None"
    using D(7) assms(2) by (simp add: first_row_def)
  have keys: "''warning'' \<notin> set (json_keys (submit_json body))"
    using nxt assms(2) by (simp add: submit_json_def json_opt_string_def split: option.splits)
  show ?thesis
  proof (cases "p_role usr = ''admin''")
    case True
    have d': "d' = update_expense_status now (next_id d) EApproved d3"
      and e: "sb_expense body = expense0\<lparr>e_status := EApproved\<rparr>"
      using D(8) assms(2) True by simp_all
    have "expense0\<lparr>e_status := EApproved\<rparr> \<in> set (expenses d')"
      using d' B(2) D(1,3,4) expense_status_update_idem[of expense0 now EApproved]
      by (simp add: update_expense_status_def)
    then show ?thesis
      using True e d' B(1) D(1,5) nxt keys by (simp add: update_expense_status_def)
  next
    case False
    have "d' = d3" and "sb_expense body = expense0"
      using D(8) False by simp_all
    then show ?thesis
      using False B D(1,2,4,5) nxt keys by simp
  qed
qed

text \<open>The admin 102 and the employee 104 submit in a company without approver rows.\<close>

theorem empty_chain_submission_witness:
  "success_chain (fst admin_submission) = []
   \<and> map e_status (expenses (fst (snd admin_submission))) = [EApproved]
   \<and> e_status (sb_expense (projr (fst admin_submission))) = EApproved
   \<and> e_status (sb_expense (projr (fst employee_submission))) = EPending
   \<and> ''warning'' \<notin> set (json_keys (submit_json (projr (fst employee_submission))))"
proof -
  let ?a = "projr (fst admin_submission)" and ?e = "projr (fst employee_submission)"
  have oka: "fst admin_submission = Inr ?a" and oke: "fst employee_submission = Inr ?e"
    by code_simp+
  have ha: "submitExpense 5 timeout_env (principal_of 102 ''admin'') usd_request (company_db [])
              Map.empty = (Inr ?a, fst (snd admin_submission), snd (snd admin_submission))"
    using oka by (simp add: admin_submission_def prod_eq_iff)
  have he: "submitExpense 5 timeout_env (principal_of 104 ''employee'') usd_request (company_db [])
              Map.empty = (Inr ?e, fst (snd employee_submission), snd (snd employee_submission))"
    using oke by (simp add: employee_submission_def prod_eq_iff)
  have ea: "sb_approval_chain ?a = []" and ee: "sb_approval_chain ?e = []"
    by code_simp+
  have sc: "success_chain (fst admin_submission) = []"
    using oka ea by (cases "fst admin_submission") (simp_all add: success_chain_def)
  have st: "map e_status (expenses (fst (snd admin_submission))) = [EApproved]"
    by code_simp
  show ?thesis
    using empty_chain_submission[OF ha ea] empty_chain_submission[OF he ee] sc st
    by (simp add: principal_of_def)
qed

section \<open>Properties of the approver roster\<close>

text \<open>
  Scenario S6 with three different role names: moving Carol to sequence 2 gives Alice 1,
  Carol 2, Bob 3.
\<close>

lemma s6_swap:
  "map (\<lambda>a. (ap_id a, ap_sequence a))
       (approvers (snd (updateApproverSequence timeout_env (principal_of 102 ''admin'') 203
                          (Some ''2'') s6_db)))
     = [(201, 1), (202, 3), (203, 2)]"
  by code_simp

text \<open>
  A new sequence beyond the range of \<open>INTEGER\<close> makes the conflict query raise: the
  handler answers 500 and changes nothing.
\<close>

lemma sequence_out_of_range:
  assumes "env_parseInt ev raw = Some n" and "2147483647 < n"
    and "approverResult d i (p_company_id usr) = (a, au) # rest" and "ap_sequence a \<noteq> n"
  shows "updateApproverSequence ev usr i (Some raw) d = (Inl InternalError, d)"
  using assms by (simp add: updateApproverSequence_def swap_step_def pg_integer_def)

text \<open>
  C9. The swap writes the occupant first: \<open>UPDATE approvers SET sequence = oldSequence\<close>
  on Bob's row, while Carol's row still holds that sequence. When both rows carry the
  same role name this violates \<open>UNIQUE(company_id, role_name, sequence)\<close>, the statement
  raises, the handler rolls back and answers 500: no sequence is exchanged.
\<close>

theorem swap_blocked_by_unique_constraint:
  "approvers_unique (approvers same_role_db)
   \<and> map (\<lambda>a. (ap_id a, ap_sequence a)) (approvers same_role_db)
       = [(201, 1), (202, 2), (203, 3)]
   \<and> updateApproverSequence timeout_env (principal_of 102 ''admin'') 203 (Some ''2'') same_role_db
       = (Inl InternalError, same_role_db)"
  by code_simp

end
